theory Spec2Isabelle
  imports Main "HOL-Library.AList"
begin

unbundle bit_operations_syntax

section \<open>Python exceptions as values\<close>

text \<open>
  Every handler of the correlation engine is modelled as a function that returns either
  the exception the Python code raises (\<open>Inl\<close>) or its result together with the updated
  state (\<open>Inr\<close>).
\<close>

datatype py_error = KeyError | AttributeError | RuntimeError | TypeError | IndexError | StructError
  | StopIteration

fun ebind :: "'e + 'a \<Rightarrow> ('a \<Rightarrow> 'e + 'b) \<Rightarrow> 'e + 'b" where
  "ebind (Inl e) f = Inl e"
| "ebind (Inr x) f = f x"

definition lookup :: "('k \<rightharpoonup> 'v) \<Rightarrow> 'k \<Rightarrow> py_error + 'v" where
  \<comment> \<open>\<open>d[k]\<close> on a dict: KeyError when the key is absent.\<close>
  "lookup d k = (case d k of None \<Rightarrow> Inl KeyError | Some v \<Rightarrow> Inr v)"

section \<open>Interrupt correlator (src/LTTngAnalyzes/irq.py)\<close>

text \<open>
  \<open>IRQ\<close> objects (class \<open>IRQ\<close> of src/old/LTTngAnalyzes/common.py) are shared between the
  per-CPU in-flight slot, the per-line list and the global list, and \<open>exit\<close> mutates the
  object it finds in the slot. They therefore live in an object store \<open>objs\<close>, addressed
  by natural numbers; slots and lists hold addresses.
\<close>

record IRQ =
  nr :: int
  irqclass :: int
  start_ts :: int
  stop_ts :: int
  raise_ts :: int
  cpu_id :: int
  ret :: "int option"

definition HARD_IRQ :: int where "HARD_IRQ = 1"
definition SOFT_IRQ :: int where "SOFT_IRQ = 2"

definition IRQ_new :: IRQ where
  \<comment> \<open>\<open>IRQ.__init__\<close>; the attribute \<open>ret\<close> only exists once \<open>hard_exit\<close> sets it.\<close>
  "IRQ_new = \<lparr>nr = -1, irqclass = 0, start_ts = -1, stop_ts = -1, raise_ts = -1,
     cpu_id = -1, ret = None\<rparr>"

text \<open>The per-line aggregate, the dict built by \<open>init_irq\<close>.\<close>

record irq_entry =
  e_list :: "nat list"
  e_max :: int
  e_min :: int
  e_count :: int
  e_total :: int
  e_raise_max :: int
  e_raise_min :: int
  e_raise_count :: int
  e_raise_total :: int

definition init_irq :: irq_entry where
  "init_irq = \<lparr>e_list = [], e_max = 0, e_min = -1, e_count = 0, e_total = 0,
     e_raise_max = 0, e_raise_min = -1, e_raise_count = 0, e_raise_total = 0\<rparr>"

text \<open>
  The dict \<open>self.irq\<close>, one field per string key. A per-CPU dict maps a CPU id to an
  optional value: \<open>None\<close> (key absent), \<open>Some None\<close> (key present, value \<open>None\<close>).
\<close>

record irq_state =
  hard_count :: int
  soft_count :: int
  hard_per_cpu :: "int \<rightharpoonup> nat option"
  soft_per_cpu :: "int \<rightharpoonup> nat option"
  raise_per_cpu :: "int \<rightharpoonup> (int \<times> int) option"
  names :: "int \<rightharpoonup> string"
  hard_irqs :: "int \<rightharpoonup> irq_entry"
  soft_irqs :: "int \<rightharpoonup> irq_entry"
  irq_list :: "nat list"
  objs :: "nat \<Rightarrow> IRQ"
  next_obj :: nat

definition Interrupt_init :: irq_state where
  \<comment> \<open>\<open>Interrupt.__init__\<close>\<close>
  "Interrupt_init = \<lparr>hard_count = 0, soft_count = 0, hard_per_cpu = Map.empty,
     soft_per_cpu = Map.empty, raise_per_cpu = Map.empty, names = Map.empty,
     hard_irqs = Map.empty, soft_irqs = Map.empty, irq_list = [],
     objs = (\<lambda>_. IRQ_new), next_obj = 0\<rparr>"

text \<open>
  An interrupt event: its timestamp, the \<open>cpu_id\<close> field, the id field (\<open>irq\<close> of a hard
  interrupt, \<open>vec\<close> of a soft one), and the \<open>name\<close> and \<open>ret\<close> fields of the hard events.
\<close>

record irq_event =
  ev_ts :: int
  ev_cpu :: int
  ev_id :: int
  ev_irqname :: string
  ev_ret :: int

text \<open>The command-line filter \<open>args.max\<close>/\<open>args.min\<close> in microseconds, \<open>None\<close> when not given.\<close>

record irq_args =
  flt_max :: "int option"
  flt_min :: "int option"

definition truthy :: "int option \<Rightarrow> bool" where
  \<comment> \<open>Python truth value of an optional number: \<open>None\<close> and \<open>0\<close> are false.\<close>
  "truthy v = (case v of None \<Rightarrow> False | Some n \<Rightarrow> n \<noteq> 0)"

definition entry :: "irq_event \<Rightarrow> int \<Rightarrow> IRQ" where
  "entry event cls = IRQ_new\<lparr>irqclass := cls, start_ts := ev_ts event,
     cpu_id := ev_cpu event, nr := ev_id event\<rparr>"

definition alloc :: "irq_state \<Rightarrow> IRQ \<Rightarrow> nat \<times> irq_state" where
  \<comment> \<open>A fresh object: the next free address of the store.\<close>
  "alloc s i = (next_obj s, s\<lparr>objs := (objs s)(next_obj s := i), next_obj := Suc (next_obj s)\<rparr>)"

definition hard_entry :: "irq_state \<Rightarrow> irq_event \<Rightarrow> irq_state" where
  "hard_entry s event =
     (let s1 = s\<lparr>names := (names s)(ev_id event \<mapsto> ev_irqname event),
                  hard_count := hard_count s + 1\<rparr>;
          (a, s2) = alloc s1 (entry event HARD_IRQ)
      in s2\<lparr>hard_per_cpu := (hard_per_cpu s2)(ev_cpu event \<mapsto> Some a)\<rparr>)"

definition soft_entry :: "irq_state \<Rightarrow> irq_event \<Rightarrow> irq_state" where
  "soft_entry s event =
     (let s1 = s\<lparr>soft_count := soft_count s + 1\<rparr>;
          (a, s2) = alloc s1 (entry event SOFT_IRQ);
          s3 = s2\<lparr>soft_per_cpu := (soft_per_cpu s2)(ev_cpu event \<mapsto> Some a)\<rparr>
      in (case raise_per_cpu s3 (ev_cpu event) of
            Some (Some (rts, rvec)) \<Rightarrow>
              if rvec = ev_id event
              then s3\<lparr>objs := (objs s3)(a := (objs s3 a)\<lparr>raise_ts := rts\<rparr>),
                      raise_per_cpu := (raise_per_cpu s3)(ev_cpu event \<mapsto> None)\<rparr>
              else s3
          | _ \<Rightarrow> s3))"

definition compute_stats :: "irq_entry \<Rightarrow> IRQ \<Rightarrow> irq_entry" where
  "compute_stats irq_e i =
     (let duration = stop_ts i - start_ts i;
          e1 = (if duration > e_max irq_e then irq_e\<lparr>e_max := duration\<rparr> else irq_e);
          e2 = (if e_min e1 = -1 \<or> duration < e_min e1 then e1\<lparr>e_min := duration\<rparr> else e1);
          e3 = e2\<lparr>e_count := e_count e2 + 1\<rparr>;
          e4 = e3\<lparr>e_total := e_total e3 + duration\<rparr>
      in if raise_ts i = -1 then e4
         else
           (let latency = start_ts i - raise_ts i;
                e5 = (if latency > e_raise_max e4 then e4\<lparr>e_raise_max := latency\<rparr> else e4);
                e6 = (if e_raise_min e5 = -1 \<or> latency < e_raise_min e5
                      then e5\<lparr>e_raise_min := latency\<rparr> else e5);
                e7 = e6\<lparr>e_raise_count := e_raise_count e6 + 1\<rparr>
            in e7\<lparr>e_raise_total := e_raise_total e7 + latency\<rparr>))"

text \<open>
  \<open>exit\<close> is called with the pairs of keys (\<open>hard-per-cpu\<close>, \<open>hard-irqs\<close>) and
  (\<open>soft-per-cpu\<close>, \<open>soft-irqs\<close>); \<open>irq_kind\<close> names the pair. Its result is \<open>None\<close>,
  \<open>False\<close> or the completed \<open>IRQ\<close> object.
\<close>

datatype irq_kind = Hard | Soft

datatype exit_result = RNone | RFalse | RObj nat

definition per_cpu :: "irq_kind \<Rightarrow> irq_state \<Rightarrow> (int \<rightharpoonup> nat option)" where
  "per_cpu k s = (case k of Hard \<Rightarrow> hard_per_cpu s | Soft \<Rightarrow> soft_per_cpu s)"

definition per_cpu_set :: "irq_kind \<Rightarrow> int \<Rightarrow> nat option \<Rightarrow> irq_state \<Rightarrow> irq_state" where
  "per_cpu_set k c v s = (case k of
       Hard \<Rightarrow> s\<lparr>hard_per_cpu := (hard_per_cpu s)(c \<mapsto> v)\<rparr>
     | Soft \<Rightarrow> s\<lparr>soft_per_cpu := (soft_per_cpu s)(c \<mapsto> v)\<rparr>)"

definition irqs :: "irq_kind \<Rightarrow> irq_state \<Rightarrow> (int \<rightharpoonup> irq_entry)" where
  "irqs k s = (case k of Hard \<Rightarrow> hard_irqs s | Soft \<Rightarrow> soft_irqs s)"

definition irqs_set :: "irq_kind \<Rightarrow> int \<Rightarrow> irq_entry \<Rightarrow> irq_state \<Rightarrow> irq_state" where
  "irqs_set k n e s = (case k of
       Hard \<Rightarrow> s\<lparr>hard_irqs := (hard_irqs s)(n \<mapsto> e)\<rparr>
     | Soft \<Rightarrow> s\<lparr>soft_irqs := (soft_irqs s)(n \<mapsto> e)\<rparr>)"

definition irq_of :: "irq_kind \<Rightarrow> irq_state \<Rightarrow> int \<Rightarrow> irq_entry" where
  \<comment> \<open>\<open>self.irq[irq_type][n]\<close> once \<open>exit\<close> has made sure that the key exists.\<close>
  "irq_of k s n = (case irqs k s n of None \<Rightarrow> init_irq | Some e \<Rightarrow> e)"

definition exit :: "irq_state \<Rightarrow> irq_event \<Rightarrow> irq_kind \<Rightarrow> irq_args \<Rightarrow> irq_state \<times> exit_result" where
  "exit s event k args =
     (case per_cpu k s (ev_cpu event) of
        None \<Rightarrow> (s, RNone)
      | Some None \<Rightarrow> (s, RNone)
      | Some (Some a) \<Rightarrow>
          if nr (objs s a) \<noteq> ev_id event
          then (per_cpu_set k (ev_cpu event) None s, RNone)
          else
            (let s1 = s\<lparr>objs := (objs s)(a := (objs s a)\<lparr>stop_ts := ev_ts event\<rparr>)\<rparr>;
                 i = objs s1 a;
                 s2 = (if irqs k s1 (nr i) = None then irqs_set k (nr i) init_irq s1 else s1);
                 duration = stop_ts i - start_ts i
             in if truthy (flt_max args) \<and> duration > the (flt_max args) * 1000
                then (s2, RFalse)
                else if truthy (flt_min args) \<and> duration < the (flt_min args) * 1000
                then (s2, RFalse)
                else
                  (let e1 = (irq_of k s2 (nr i))\<lparr>e_list := e_list (irq_of k s2 (nr i)) @ [a]\<rparr>;
                       s3 = irqs_set k (nr i) (compute_stats e1 i) s2
                   in (s3\<lparr>irq_list := irq_list s3 @ [a]\<rparr>, RObj a))))"

definition hard_exit :: "irq_state \<Rightarrow> irq_event \<Rightarrow> irq_args \<Rightarrow> irq_state" where
  "hard_exit s event args =
     (case exit s event Hard args of
        (s1, RObj a) \<Rightarrow> s1\<lparr>objs := (objs s1)(a := (objs s1 a)\<lparr>ret := Some (ev_ret event)\<rparr>)\<rparr>
      | (s1, _) \<Rightarrow> s1)"

definition soft_exit :: "irq_state \<Rightarrow> irq_event \<Rightarrow> irq_args \<Rightarrow> irq_state" where
  "soft_exit s event args = fst (exit s event Soft args)"

definition soft_raise :: "irq_state \<Rightarrow> irq_event \<Rightarrow> irq_state" where
  "soft_raise s event =
     s\<lparr>raise_per_cpu := (raise_per_cpu s)(ev_cpu event \<mapsto> Some (ev_ts event, ev_id event))\<rparr>"

text \<open>An event of the soft-interrupt stream, and the state after a sequence of them.\<close>

datatype soft_ev = Raise irq_event | Entry irq_event | Exit irq_event

fun soft_step :: "irq_args \<Rightarrow> irq_state \<Rightarrow> soft_ev \<Rightarrow> irq_state" where
  "soft_step args s (Raise e) = soft_raise s e"
| "soft_step args s (Entry e) = soft_entry s e"
| "soft_step args s (Exit e) = soft_exit s e args"

definition soft_run :: "irq_args \<Rightarrow> irq_state \<Rightarrow> soft_ev list \<Rightarrow> irq_state" where
  "soft_run args s evs = foldl (soft_step args) s evs"

definition soft_event :: "int \<Rightarrow> int \<Rightarrow> int \<Rightarrow> irq_event" where
  \<comment> \<open>A soft-interrupt event: timestamp, CPU, vector.\<close>
  "soft_event t c v = \<lparr>ev_ts = t, ev_cpu = c, ev_id = v, ev_irqname = [], ev_ret = 0\<rparr>"

definition no_filter :: irq_args where
  "no_filter = \<lparr>flt_max = None, flt_min = None\<rparr>"

text \<open>
  The content of a CPU's pending-raise slot, a missing key and the value \<open>None\<close> read alike
  (\<open>soft_entry\<close> tests both).
\<close>

definition slot :: "irq_state \<Rightarrow> int \<Rightarrow> (int \<times> int) option" where
  "slot s c = (case raise_per_cpu s c of Some (Some p) \<Rightarrow> Some p | _ \<Rightarrow> None)"

definition consumed :: "irq_state \<Rightarrow> irq_event \<Rightarrow> bool" where
  "consumed s e = (case slot s (ev_cpu e) of Some (rts, v) \<Rightarrow> v = ev_id e | None \<Rightarrow> False)"

definition filter_passes :: "irq_args \<Rightarrow> int \<Rightarrow> bool" where
  \<comment> \<open>Neither of the two filter tests of \<open>exit\<close> rejects the duration (in nanoseconds).\<close>
  "filter_passes args d =
     (\<not> (truthy (flt_max args) \<and> d > the (flt_max args) * 1000) \<and>
      \<not> (truthy (flt_min args) \<and> d < the (flt_min args) * 1000))"

text \<open>
  The specification's reading of a pending raise, over the events seen so far on all CPUs:
  a raise event on CPU \<open>c\<close> with vector \<open>v\<close> that no later entry for \<open>v\<close> on \<open>c\<close> follows.
\<close>

fun spec_raise_preceded :: "soft_ev list \<Rightarrow> int \<Rightarrow> int \<Rightarrow> bool" where
  "spec_raise_preceded [] c v = False"
| "spec_raise_preceded (Raise r # rest) c v =
     ((ev_cpu r = c \<and> ev_id r = v \<and>
       (\<forall>ev \<in> set rest. case ev of Entry e \<Rightarrow> \<not> (ev_cpu e = c \<and> ev_id e = v) | _ \<Rightarrow> True))
      \<or> spec_raise_preceded rest c v)"
| "spec_raise_preceded (_ # rest) c v = spec_raise_preceded rest c v"

text \<open>
  The amended reading: the most recent raise event on CPU \<open>c\<close>, whatever its vector, unless
  an entry for that vector on \<open>c\<close> has used it since.
\<close>

fun pending_step :: "int \<Rightarrow> (int \<times> int) option \<Rightarrow> soft_ev \<Rightarrow> (int \<times> int) option" where
  "pending_step c p (Raise r) = (if ev_cpu r = c then Some (ev_ts r, ev_id r) else p)"
| "pending_step c p (Entry e) =
     (if ev_cpu e = c \<and> (case p of Some (t, v) \<Rightarrow> v = ev_id e | None \<Rightarrow> False) then None else p)"
| "pending_step c p (Exit x) = p"

definition pending_raise :: "soft_ev list \<Rightarrow> int \<Rightarrow> (int \<times> int) option" where
  "pending_raise evs c = foldl (pending_step c) None evs"

section \<open>Formatting helpers (src/linuxautomaton/linuxautomaton/common.py)\<close>

definition digit :: "nat \<Rightarrow> char" where
  "digit d = ''0123456789'' ! d"

function digits :: "nat \<Rightarrow> string" where
  "digits n = (if n < 10 then [digit n] else digits (n div 10) @ [digit (n mod 10)])"
  by pat_completeness auto
termination
  by (relation "measure id") auto

definition show_int :: "int \<Rightarrow> string" where
  \<comment> \<open>\<open>'%d' % i\<close>\<close>
  "show_int i = (if i < 0 then CHR ''-'' # digits (nat (- i)) else digits (nat i))"

definition O_CLOEXEC :: int where
  \<comment> \<open>\<open>0o2000000\<close>\<close>
  "O_CLOEXEC = 524288"

definition kdev_major_minor :: "int \<Rightarrow> string" where
  "kdev_major_minor dev =
     (let MINORBITS = 20;
          MINORMASK = push_bit MINORBITS 1 - 1;
          major = drop_bit MINORBITS dev;
          minor = dev AND MINORMASK
      in ''('' @ show_int major @ '','' @ show_int minor @ '')'')"

definition seq_to_ipv4 :: "int list \<Rightarrow> py_error + string" where
  \<comment> \<open>\<open>ip[0]\<close> .. \<open>ip[3]\<close>: IndexError on a shorter sequence.\<close>
  "seq_to_ipv4 ip =
     (if length ip < 4 then Inl IndexError
      else Inr (show_int (ip ! 0) @ ''.'' @ show_int (ip ! 1) @ ''.'' @ show_int (ip ! 2)
                @ ''.'' @ show_int (ip ! 3)))"

definition int_to_ipv4 :: "int \<Rightarrow> py_error + string" where
  \<comment> \<open>\<open>socket.inet_ntoa(struct.pack('!I', ip))\<close>: the four bytes, most significant first;
      \<open>struct.pack\<close> refuses a number outside 32 bits.\<close>
  "int_to_ipv4 ip =
     (if ip < 0 \<or> 4294967296 \<le> ip then Inl StructError
      else Inr (show_int (drop_bit 24 ip AND 255) @ ''.'' @ show_int (drop_bit 16 ip AND 255)
                @ ''.'' @ show_int (drop_bit 8 ip AND 255) @ ''.'' @ show_int (ip AND 255)))"

section \<open>Disk table (src/linuxautomaton/linuxautomaton/common.py)\<close>

text \<open>
  Class \<open>Disk\<close> as src/old/LTTngAnalyzes/common.py declares it; of its counters only those
  that are plain numbers are kept, the request lists are not touched by the code below.
\<close>

record Disk =
  d_name :: string
  d_prettyname :: string
  d_nr_sector :: int
  d_nr_requests :: int
  d_completed_requests :: int
  d_request_time :: int

definition Disk_new :: Disk where
  "Disk_new = \<lparr>d_name = [], d_prettyname = [], d_nr_sector = 0, d_nr_requests = 0,
     d_completed_requests = 0, d_request_time = 0\<rparr>"

definition setattr_int :: "int \<Rightarrow> string \<Rightarrow> string \<Rightarrow> py_error + unit" where
  \<comment> \<open>Assigning to an attribute of a Python \<open>int\<close>: the object has no \<open>__dict__\<close>, the
      assignment raises AttributeError whatever the attribute and the value.\<close>
  "setattr_int obj attr v = Inl AttributeError"

text \<open>
  \<open>get_disk(dev, disks)\<close>. In the branch of an unknown device the source builds the disk,
  then executes \<open>dev.prettyname = kdev_major_minor(dev)\<close> on the integer \<open>dev\<close>; the two
  statements after it (\<open>disks[dev] = disks\<close>, \<open>return disk\<close>) are behind that assignment.
  The table is returned with the disk, as the source mutates it in place.
\<close>

definition get_disk :: "int \<Rightarrow> (int \<rightharpoonup> Disk) \<Rightarrow> py_error + (Disk \<times> (int \<rightharpoonup> Disk))" where
  "get_disk dev disks =
     (case disks dev of
        None \<Rightarrow>
          (let disk = Disk_new\<lparr>d_name := show_int dev\<rparr>
           in ebind (setattr_int dev ''prettyname'' (kdev_major_minor dev))
                (\<lambda>_. Inr (disk, disks)))
      | Some disk \<Rightarrow> Inr (disk, disks))"

text \<open>
  The sibling of src/old/LTTngAnalyzes/common.py, which sets the pretty name on the disk
  and stores the disk in the table.
\<close>

definition old_get_disk :: "int \<Rightarrow> (int \<rightharpoonup> Disk) \<Rightarrow> py_error + (Disk \<times> (int \<rightharpoonup> Disk))" where
  "old_get_disk dev disks =
     (case disks dev of
        None \<Rightarrow>
          (let d = Disk_new\<lparr>d_name := show_int dev, d_prettyname := kdev_major_minor dev\<rparr>
           in Inr (d, disks(dev \<mapsto> d)))
      | Some d \<Rightarrow> Inr (d, disks))"

definition process_lttng_statedump_block_device ::
  "(int \<rightharpoonup> Disk) \<Rightarrow> int \<Rightarrow> string \<Rightarrow> py_error + (int \<rightharpoonup> Disk)" where
  \<comment> \<open>\<open>_process_lttng_statedump_block_device\<close> on the fields \<open>dev\<close> and \<open>diskname\<close>; the
      disk is an object of the table, so the new pretty name is seen through the table.\<close>
  "process_lttng_statedump_block_device disks dev diskname =
     ebind (get_disk dev disks)
       (\<lambda>(d, disks'). Inr (disks'(dev \<mapsto> d\<lparr>d_prettyname := diskname\<rparr>)))"

section \<open>State of the syscall correlator and the statedump reconciler\<close>

text \<open>
  The module \<open>sv\<close> that declares the state classes is not among the sources; the classes
  are taken as src/old/LTTngAnalyzes/common.py declares them, with the attributes that
  the code of syscalls.py and statedump.py reads and writes. Where that code tests an
  attribute against \<open>None\<close> (\<open>t.pid\<close>, \<open>c.current_tid\<close>, \<open>t_syscall.min\<close>) the attribute is
  optional and starts as \<open>None\<close>.
\<close>

datatype FDType = T_unknown | T_disk | T_net | T_maybe_net

text \<open>The constants of class \<open>IORequest\<close> and of the module \<open>socket\<close> (Linux).\<close>

definition IO_SYSCALL :: int where "IO_SYSCALL = 1"
definition OP_OPEN :: int where "OP_OPEN = 1"
definition OP_READ :: int where "OP_READ = 2"
definition OP_WRITE :: int where "OP_WRITE = 3"
definition OP_SYNC :: int where "OP_SYNC = 5"
definition AF_UNSPEC :: int where "AF_UNSPEC = 0"
definition AF_UNIX :: int where "AF_UNIX = 1"
definition AF_INET :: int where "AF_INET = 2"
definition AF_INET6 :: int where "AF_INET6 = 10"

text \<open>
  An \<open>IORequest\<close>. Its owner \<open>proc\<close> is kept as the key of the process in the thread
  table, its descriptor \<open>fd\<close> as the address of the \<open>FD\<close> object.
\<close>

record IORequest =
  rq_iotype :: "int option"
  rq_size :: "int option"
  rq_duration :: "int option"
  rq_operation :: "int option"
  rq_name :: "string option"
  rq_begin :: "int option"
  rq_end :: "int option"
  rq_proc :: "int option"
  rq_fd :: "nat option"
  rq_dirty :: int
  rq_page_alloc :: int
  rq_page_free :: int
  rq_page_written :: int
  rq_woke_kswapd :: bool
  rq_page_cleared :: int

definition IORequest_new :: IORequest where
  "IORequest_new = \<lparr>rq_iotype = None, rq_size = None, rq_duration = None,
     rq_operation = None, rq_name = None, rq_begin = None, rq_end = None, rq_proc = None,
     rq_fd = None, rq_dirty = 0, rq_page_alloc = 0, rq_page_free = 0, rq_page_written = 0,
     rq_woke_kswapd = False, rq_page_cleared = 0\<rparr>"

text \<open>
  An \<open>FD\<close> object. \<open>FD\<close> objects are shared between the open table, the closed table and
  the in-flight record of a thread, so they live in a store and are named by address.
  \<open>f_cloexec\<close> holds the number that the source stores: 0, 1, or the truth value of the
  flag test as 0 or 1.
\<close>

record FD =
  f_filename :: string
  f_fd :: int
  f_family :: int
  f_fdtype :: FDType
  f_parent :: int
  f_net_read :: int
  f_net_write :: int
  f_disk_read :: int
  f_disk_write :: int
  f_unk_read :: int
  f_unk_write :: int
  f_read :: int
  f_write :: int
  f_open :: int
  f_close :: int
  f_cloexec :: int
  f_iorequests :: "IORequest list"

definition FD_new :: FD where
  "FD_new = \<lparr>f_filename = [], f_fd = -1, f_family = AF_UNSPEC, f_fdtype = T_unknown,
     f_parent = -1, f_net_read = 0, f_net_write = 0, f_disk_read = 0, f_disk_write = 0,
     f_unk_read = 0, f_unk_write = 0, f_read = 0, f_write = 0, f_open = 0, f_close = 0,
     f_cloexec = 0, f_iorequests = []\<rparr>"

text \<open>
  The in-flight record \<open>current_syscall\<close> of a thread: a dict, one optional field per key
  that the engine uses. The empty dict has no key; \<open>count\<close> holds a number or the empty
  string (\<open>None\<close> here).
\<close>

record current_syscall =
  cs_name :: "string option"
  cs_start :: "int option"
  cs_filename :: "string option"
  cs_cloexec :: "int option"
  cs_family :: "int option"
  cs_fdtype :: "FDType option"
  cs_fd :: "nat option"
  cs_fd_in :: "nat option"
  cs_fd_out :: "nat option"
  cs_count :: "int option option"
  cs_iorequest :: "IORequest option"
  cs_pages_written :: "int option"
  cs_wakeup_kswapd :: "int option"
  cs_page_free :: "int option"
  cs_dirty :: "int option"
  cs_pages_allocated :: "int option"
  cs_pages_cleared :: "int list option"

definition cs_empty :: current_syscall where
  "cs_empty = \<lparr>cs_name = None, cs_start = None, cs_filename = None, cs_cloexec = None,
     cs_family = None, cs_fdtype = None, cs_fd = None, cs_fd_in = None, cs_fd_out = None,
     cs_count = None, cs_iorequest = None, cs_pages_written = None,
     cs_wakeup_kswapd = None, cs_page_free = None, cs_dirty = None,
     cs_pages_allocated = None, cs_pages_cleared = None\<rparr>"

record SyscallEvent =
  se_ret :: int
  se_entry_ts :: int
  se_exit_ts :: int
  se_duration :: int

record Syscall =
  sc_name :: string
  sc_count :: int
  sc_min :: "int option"
  sc_max :: int
  sc_total_duration :: int
  sc_rq :: "SyscallEvent list"

definition Syscall_new :: Syscall where
  "Syscall_new = \<lparr>sc_name = [], sc_count = 0, sc_min = None, sc_max = 0,
     sc_total_duration = 0, sc_rq = []\<rparr>"

text \<open>
  A \<open>Process\<close>. \<open>p_oid\<close> is the identity of the object, which membership in
  \<open>pending_syscalls\<close> compares. The open table, keyed by fd number, and the closed table,
  keyed by filename, are dicts that the code iterates: association lists in insertion
  order, holding addresses of \<open>FD\<close> objects. \<open>p_chrono_fds\<close> maps an fd number to its
  history, an ordered dict from timestamps to the pair of filename and type.
\<close>

record Process =
  p_oid :: nat
  p_tid :: "int option"
  p_pid :: "int option"
  p_comm :: string
  p_fds :: "(int \<times> nat) list"
  p_closed_fds :: "(string \<times> nat) list"
  p_chrono_fds :: "int \<rightharpoonup> (int \<times> string \<times> FDType) list"
  p_current_syscall :: current_syscall
  p_net_read :: int
  p_net_write :: int
  p_disk_read :: int
  p_disk_write :: int
  p_unk_read :: int
  p_unk_write :: int
  p_read :: int
  p_write :: int
  p_prev_tid :: int
  p_syscalls :: "string \<rightharpoonup> Syscall"
  p_total_syscalls :: int
  p_iorequests :: "IORequest list"

definition Process_new :: "nat \<Rightarrow> Process" where
  "Process_new oid = \<lparr>p_oid = oid, p_tid = None, p_pid = None, p_comm = [], p_fds = [],
     p_closed_fds = [], p_chrono_fds = Map.empty, p_current_syscall = cs_empty,
     p_net_read = 0, p_net_write = 0, p_disk_read = 0, p_disk_write = 0, p_unk_read = 0,
     p_unk_write = 0, p_read = 0, p_write = 0, p_prev_tid = -1, p_syscalls = Map.empty,
     p_total_syscalls = 0, p_iorequests = []\<rparr>"

text \<open>
  The shared state: the CPU table (CPU id to the current thread id, iterated by the
  broadcast handlers), the thread table, the global syscall tally with its \<open>total\<close>, the
  list of threads with a pending read, write or sync, the store of \<open>FD\<close> objects and the
  counters that name fresh objects.
\<close>

record state =
  cpus :: "(int \<times> int option) list"
  tids :: "int \<rightharpoonup> Process"
  syscalls :: "string \<rightharpoonup> Syscall"
  syscalls_total :: int
  pending_syscalls :: "nat list"
  heap :: "nat \<Rightarrow> FD"
  next_fd :: nat
  next_oid :: nat

text \<open>
  The name catalog \<open>sv.SyscallConsts\<close> is a parameter of the correlator.
\<close>

record syscall_consts =
  INET_FAMILIES :: "int list"
  DISK_FAMILIES :: "int list"
  DISK_OPEN_SYSCALLS :: "string list"
  NET_OPEN_SYSCALLS :: "string list"
  OPEN_SYSCALLS :: "string list"
  CLOSE_SYSCALLS :: "string list"
  READ_SYSCALLS :: "string list"
  WRITE_SYSCALLS :: "string list"
  SYNC_SYSCALLS :: "string list"
  IO_SYSCALLS :: "string list"
  GENERIC_NAMES :: "string list"

text \<open>
  A trace event: name, timestamp, and the fields by name, each in the table of its
  type (numbers, strings, byte sequences). \<open>ev_context\<close> and \<open>ev_payload\<close> list the field
  names of the stream event context and of the event payload.
\<close>

record event =
  ev_name :: string
  ev_timestamp :: int
  ev_ints :: "string \<rightharpoonup> int"
  ev_strs :: "string \<rightharpoonup> string"
  ev_seqs :: "string \<rightharpoonup> int list"
  ev_context :: "string list"
  ev_payload :: "string list"

section \<open>Syscall correlator (src/linuxautomaton/linuxautomaton/syscalls.py)\<close>

subsection \<open>Access to the state\<close>

definition upd_proc :: "state \<Rightarrow> int \<Rightarrow> (Process \<Rightarrow> Process) \<Rightarrow> state" where
  \<comment> \<open>Mutation of the process object stored under a key of the thread table.\<close>
  "upd_proc s k f = (case tids s k of None \<Rightarrow> s | Some p \<Rightarrow> s\<lparr>tids := (tids s)(k \<mapsto> f p)\<rparr>)"

definition upd_cs :: "state \<Rightarrow> int \<Rightarrow> (current_syscall \<Rightarrow> current_syscall) \<Rightarrow> state" where
  "upd_cs s k f = upd_proc s k (\<lambda>p. p\<lparr>p_current_syscall := f (p_current_syscall p)\<rparr>)"

definition upd_fd :: "state \<Rightarrow> nat \<Rightarrow> (FD \<Rightarrow> FD) \<Rightarrow> state" where
  \<comment> \<open>Mutation of the \<open>FD\<close> object at an address.\<close>
  "upd_fd s a f = s\<lparr>heap := (heap s)(a := f (heap s a))\<rparr>"

definition alloc_fd :: "state \<Rightarrow> FD \<Rightarrow> nat \<times> state" where
  "alloc_fd s f = (next_fd s, s\<lparr>heap := (heap s)(next_fd s := f), next_fd := Suc (next_fd s)\<rparr>)"

definition parent_key :: "Process \<Rightarrow> int \<Rightarrow> int" where
  \<comment> \<open>\<open>if t.pid is not None and t.tid != t.pid: t = self.tids[t.pid]\<close>: the key under
      which the process that owns the descriptors is looked up.\<close>
  "parent_key t cur = (case p_pid t of None \<Rightarrow> cur | Some pid \<Rightarrow> if p_tid t \<noteq> Some pid then pid else cur)"

definition ev_int :: "event \<Rightarrow> string \<Rightarrow> py_error + int" where
  "ev_int ev k = lookup (ev_ints ev) k"

definition ev_str :: "event \<Rightarrow> string \<Rightarrow> py_error + string" where
  "ev_str ev k = lookup (ev_strs ev) k"

definition ev_has :: "event \<Rightarrow> string \<Rightarrow> bool" where
  \<comment> \<open>\<open>k in event.keys()\<close>\<close>
  "ev_has ev k = (ev_ints ev k \<noteq> None \<or> ev_strs ev k \<noteq> None \<or> ev_seqs ev k \<noteq> None)"

definition get_v4_addr_str :: "event \<Rightarrow> py_error + string" where
  \<comment> \<open>\<open>common.get_v4_addr_str(event['v4addr'])\<close>: a sequence is formatted element by
      element, a number (TypeError on indexing) goes through \<open>int_to_ipv4\<close>.\<close>
  "get_v4_addr_str ev =
     (case ev_seqs ev ''v4addr'' of
        Some ip \<Rightarrow> seq_to_ipv4 ip
      | None \<Rightarrow> ebind (ev_int ev ''v4addr'') int_to_ipv4)"

text \<open>
  Modelled from the spec: \<open>sv.Process.track_chrono_fd\<close> is not among the sources. The
  specification has the chronological FD history of the process enriched with a
  timestamped entry; the history of an fd is the ordered dict that \<open>merge_fd_dict\<close>
  reads, so the entry is stored under its timestamp, after the entries present.
\<close>

definition track_chrono_fd :: "Process \<Rightarrow> int \<Rightarrow> string \<Rightarrow> FDType \<Rightarrow> int \<Rightarrow> Process" where
  "track_chrono_fd p fd filename fdtype ts =
     p\<lparr>p_chrono_fds := (p_chrono_fds p)(fd \<mapsto>
          AList.update ts (filename, fdtype)
            (case p_chrono_fds p fd of None \<Rightarrow> [] | Some l \<Rightarrow> l))\<rparr>"

subsection \<open>Syscall entry\<close>

definition get_fd_type :: "syscall_consts \<Rightarrow> string \<Rightarrow> int \<Rightarrow> FDType" where
  "get_fd_type K name family =
     (if name \<in> set (NET_OPEN_SYSCALLS K) \<and> family \<in> set (INET_FAMILIES K) then T_net
      else if name \<in> set (NET_OPEN_SYSCALLS K) \<and> family \<in> set (DISK_FAMILIES K) then T_disk
      else if name \<in> set (DISK_OPEN_SYSCALLS K) then T_disk
      else T_unknown)"

definition global_syscall_entry :: "state \<Rightarrow> string \<Rightarrow> py_error + state" where
  \<comment> \<open>The tally dict also holds the number \<open>total\<close> under the key \<open>'total'\<close>: a syscall of
      that name would find the number and fail on \<open>s.count\<close>.\<close>
  "global_syscall_entry s name =
     (if name = ''total'' then Inl AttributeError
      else
        (let sc = (case syscalls s name of
                     None \<Rightarrow> Syscall_new\<lparr>sc_name := name, sc_count := 0\<rparr>
                   | Some sc \<Rightarrow> sc)
         in Inr (s\<lparr>syscalls := (syscalls s)(name \<mapsto> sc\<lparr>sc_count := sc_count sc + 1\<rparr>),
                   syscalls_total := syscalls_total s + 1\<rparr>)))"

definition override_name :: "string \<Rightarrow> event \<Rightarrow> py_error + string" where
  "override_name name ev =
     (if name = ''syscall_entry_epoll_ctl''
      then ebind (ev_int ev ''op'')
             (\<lambda>op. Inr (if op = 1 then name @ ''-ADD''
                        else if op = 2 then name @ ''-DEL''
                        else if op = 3 then name @ ''-MODE''
                        else name))
      else Inr name)"

definition per_tid_syscall_entry :: "state \<Rightarrow> string \<Rightarrow> int \<Rightarrow> event \<Rightarrow> py_error + state" where
  "per_tid_syscall_entry s name cpu ev =
     (case map_of (cpus s) cpu of
        None \<Rightarrow> Inr s
      | Some None \<Rightarrow> Inr s
      | Some (Some cur) \<Rightarrow>
          ebind (lookup (tids s) cur) (\<lambda>t.
          ebind (override_name name ev) (\<lambda>name'.
            (let sc = (case p_syscalls t name' of
                         None \<Rightarrow> Syscall_new\<lparr>sc_name := name'\<rparr>
                       | Some sc \<Rightarrow> sc);
                 t' = t\<lparr>p_total_syscalls := p_total_syscalls t + 1,
                        p_syscalls := (p_syscalls t)(name' \<mapsto> sc\<lparr>sc_count := sc_count sc + 1\<rparr>),
                        p_current_syscall := (p_current_syscall t)
                          \<lparr>cs_name := Some name', cs_start := Some (ev_timestamp ev)\<rparr>\<rparr>
             in global_syscall_entry (s\<lparr>tids := (tids s)(cur \<mapsto> t')\<rparr>) name'))))"

text \<open>
  \<open>close_fd(proc, fd)\<close>; \<open>pk\<close> is the key of \<open>proc\<close> in the thread table. The counters are
  added one statement after the other on the stored objects, as in the source, so that
  the case of one object in both tables is covered.
\<close>

definition close_fd :: "syscall_consts \<Rightarrow> state \<Rightarrow> int \<Rightarrow> int \<Rightarrow> py_error + state" where
  "close_fd K s pk fd =
     ebind (lookup (tids s) pk) (\<lambda>proc.
     ebind (lookup (map_of (p_fds proc)) fd) (\<lambda>a.
       (let filename = f_filename (heap s a);
            s' = (case (if filename \<notin> set (GENERIC_NAMES K)
                        then map_of (p_closed_fds proc) filename else None) of
                    Some b \<Rightarrow>
                      (let s1 = upd_fd s b (\<lambda>f. f\<lparr>f_close := f_close f + 1\<rparr>);
                           s2 = upd_fd s1 b (\<lambda>f. f\<lparr>f_net_read := f_net_read f + f_net_read (heap s1 a)\<rparr>);
                           s3 = upd_fd s2 b (\<lambda>f. f\<lparr>f_disk_read := f_disk_read f + f_disk_read (heap s2 a)\<rparr>);
                           s4 = upd_fd s3 b (\<lambda>f. f\<lparr>f_net_write := f_net_write f + f_net_write (heap s3 a)\<rparr>)
                       in upd_fd s4 b (\<lambda>f. f\<lparr>f_disk_write := f_disk_write f + f_disk_write (heap s4 a)\<rparr>))
                  | None \<Rightarrow>
                      (let s1 = upd_proc s pk
                                  (\<lambda>p. p\<lparr>p_closed_fds := AList.update filename a (p_closed_fds p)\<rparr>)
                       in upd_fd s1 a (\<lambda>f. f\<lparr>f_close := 1\<rparr>)))
        in Inr (upd_proc s' pk (\<lambda>p. p\<lparr>p_fds := AList.delete fd (p_fds p)\<rparr>)))))"

definition dup_source :: "state \<Rightarrow> int \<Rightarrow> int \<Rightarrow> current_syscall \<Rightarrow> current_syscall" where
  \<comment> \<open>The filename and type that \<open>dup2\<close> and \<open>fcntl\<close> copy from the source descriptor.\<close>
  "dup_source s pk oldfd cs =
     (case (case tids s pk of None \<Rightarrow> None | Some proc \<Rightarrow> map_of (p_fds proc) oldfd) of
        Some a \<Rightarrow> cs\<lparr>cs_filename := Some (f_filename (heap s a)),
                     cs_fdtype := Some (f_fdtype (heap s a))\<rparr>
      | None \<Rightarrow> cs\<lparr>cs_filename := Some []\<rparr>)"

definition track_open_tail :: "syscall_consts \<Rightarrow> state \<Rightarrow> string \<Rightarrow> event \<Rightarrow> int \<Rightarrow> py_error + state" where
  \<comment> \<open>The statements of \<open>track_open\<close> after the chain of cases.\<close>
  "track_open_tail K s name ev cur =
     ebind (if name \<in> set (NET_OPEN_SYSCALLS K) \<and> ev_has ev ''family''
            then ev_int ev ''family'' else Inr AF_UNSPEC) (\<lambda>family.
       Inr (upd_cs s cur (\<lambda>cs. cs\<lparr>cs_family := Some family, cs_name := Some name,
              cs_start := Some (ev_timestamp ev),
              cs_fdtype := Some (get_fd_type K name family)\<rparr>)))"

definition track_open :: "syscall_consts \<Rightarrow> state \<Rightarrow> string \<Rightarrow> int \<Rightarrow> event \<Rightarrow> int \<Rightarrow> py_error + state" where
  "track_open K s name pk ev cur =
     ebind (lookup (tids s) cur) (\<lambda>_.
       (let s0 = upd_cs s cur (\<lambda>_. cs_empty)
        in if name \<in> set (DISK_OPEN_SYSCALLS K) then
             ebind (ev_str ev ''filename'') (\<lambda>filename.
             ebind (ev_int ev ''flags'') (\<lambda>flags.
               track_open_tail K
                 (upd_cs s0 cur (\<lambda>cs. (if flags AND O_CLOEXEC = O_CLOEXEC
                                        then cs\<lparr>cs_filename := Some filename, cs_cloexec := Some 1\<rparr>
                                        else cs\<lparr>cs_filename := Some filename\<rparr>)))
                 name ev cur))
           else if name \<in> set [''sys_accept'', ''syscall_entry_accept'',
                                ''sys_accept4'', ''syscall_entry_accept4''] then
             (if ev_has ev ''family'' \<and> ev_ints ev ''family'' = Some AF_INET then
                ebind (get_v4_addr_str ev) (\<lambda>addr.
                ebind (ev_int ev ''sport'') (\<lambda>sport.
                  track_open_tail K
                    (upd_cs s0 cur (\<lambda>cs. cs\<lparr>cs_filename := Some (addr @ '':'' @ show_int sport)\<rparr>))
                    name ev cur))
              else track_open_tail K
                     (upd_cs s0 cur (\<lambda>cs. cs\<lparr>cs_filename := Some ''socket''\<rparr>)) name ev cur)
           else if name \<in> set (NET_OPEN_SYSCALLS K) then
             track_open_tail K (upd_cs s0 cur (\<lambda>cs. cs\<lparr>cs_filename := Some ''socket''\<rparr>)) name ev cur
           else if name \<in> set [''sys_dup2'', ''syscall_entry_dup2''] then
             ebind (ev_int ev ''newfd'') (\<lambda>newfd.
             ebind (ev_int ev ''oldfd'') (\<lambda>oldfd.
             ebind (lookup (tids s0) pk) (\<lambda>proc.
             ebind (if map_of (p_fds proc) newfd \<noteq> None then close_fd K s0 pk newfd else Inr s0)
               (\<lambda>s1. track_open_tail K (upd_cs s1 cur (dup_source s1 pk oldfd)) name ev cur))))
           else if name \<in> set [''sys_fcntl'', ''syscall_entry_fcntl''] then
             ebind (ev_int ev ''cmd'') (\<lambda>cmd.
               if cmd \<noteq> 0 then Inr s0
               else ebind (ev_int ev ''fd'') (\<lambda>oldfd.
                      track_open_tail K (upd_cs s0 cur (dup_source s0 pk oldfd)) name ev cur))
           else track_open_tail K s0 name ev cur))"

definition track_close :: "syscall_consts \<Rightarrow> state \<Rightarrow> string \<Rightarrow> int \<Rightarrow> event \<Rightarrow> int \<Rightarrow> py_error + state" where
  "track_close K s name pk ev cur =
     ebind (ev_int ev ''fd'') (\<lambda>fd.
     ebind (lookup (tids s) pk) (\<lambda>proc.
       (case map_of (p_fds proc) fd of
          None \<Rightarrow> Inr s
        | Some a \<Rightarrow>
            ebind (lookup (tids s) cur) (\<lambda>_.
              close_fd K
                (upd_cs s cur (\<lambda>_. cs_empty\<lparr>cs_filename := Some (f_filename (heap s a)),
                   cs_name := Some name, cs_start := Some (ev_timestamp ev)\<rparr>))
                pk fd))))"

text \<open>
  \<open>_fix_context_pid(event, t)\<close>, for the thread \<open>t\<close> stored under \<open>cur\<close>; the result carries
  the state and the thread object as the caller goes on reading it.
\<close>

definition fix_context_pid :: "state \<Rightarrow> event \<Rightarrow> int \<Rightarrow> Process \<Rightarrow> py_error + (state \<times> Process)" where
  "fix_context_pid s ev cur t =
     (if ''pid'' \<in> set (ev_context ev) then
        (if ''pid'' \<in> set (ev_payload ev) then Inr (s, t)
         else if p_pid t = None then
           ebind (ev_int ev ''pid'') (\<lambda>pid.
             if Some pid \<noteq> p_tid t then
               (let t' = t\<lparr>p_pid := Some pid\<rparr>;
                    p = (Process_new (next_oid s))\<lparr>p_tid := Some pid, p_pid := Some pid,
                          p_comm := p_comm t\<rparr>
                in Inr (s\<lparr>tids := ((tids s)(cur \<mapsto> t'))(pid \<mapsto> p),
                          next_oid := Suc (next_oid s)\<rparr>, t'))
             else Inr (s, t))
         else Inr (s, t))
      else Inr (s, t))"

definition get_fd :: "state \<Rightarrow> int \<Rightarrow> int \<Rightarrow> event \<Rightarrow> py_error + (nat \<times> state)" where
  \<comment> \<open>\<open>get_fd(proc, fd, event)\<close> for the process stored under \<open>pk\<close>; the result is the
      address of the descriptor.\<close>
  "get_fd s pk fd ev =
     ebind (lookup (tids s) pk) (\<lambda>proc.
       (let (a, s1) = (case map_of (p_fds proc) fd of
                         None \<Rightarrow>
                           (let (a, s') = alloc_fd s (FD_new\<lparr>f_fd := fd,
                                             f_filename := ''unknown (origin not found)''\<rparr>)
                            in (a, upd_proc s' pk (\<lambda>p. p\<lparr>p_fds := AList.update fd a (p_fds p)\<rparr>)))
                       | Some a \<Rightarrow> (a, s))
        in Inr (a, upd_proc s1 pk (\<lambda>p. track_chrono_fd p fd (f_filename (heap s1 a))
                                          (f_fdtype (heap s1 a)) (ev_timestamp ev)))))"

definition track_fds :: "syscall_consts \<Rightarrow> state \<Rightarrow> string \<Rightarrow> event \<Rightarrow> int \<Rightarrow> py_error + state" where
  "track_fds K s name ev cpu =
     (case map_of (cpus s) cpu of
        None \<Rightarrow> Inr s
      | Some None \<Rightarrow> Inr s
      | Some (Some cur) \<Rightarrow>
          ebind (lookup (tids s) cur) (\<lambda>t.
          ebind (fix_context_pid s ev cur t) (\<lambda>(s1, t1).
            (let pk = parent_key t1 cur
             in ebind (lookup (tids s1) pk) (\<lambda>_.
                  if name \<in> set (OPEN_SYSCALLS K) then track_open K s1 name pk ev cur
                  else if name \<in> set (CLOSE_SYSCALLS K) then track_close K s1 name pk ev cur
                  else if name \<in> set [''sys_connect'', ''syscall_entry_connect'']
                          \<and> ev_has ev ''family'' then
                    (if ev_ints ev ''family'' = Some AF_INET then
                       ebind (ev_int ev ''fd'') (\<lambda>fd.
                       ebind (get_fd s1 pk fd ev) (\<lambda>(a, s2).
                       ebind (get_v4_addr_str ev) (\<lambda>addr.
                       ebind (ev_int ev ''dport'') (\<lambda>dport.
                         Inr (upd_fd s2 a (\<lambda>f. f\<lparr>f_filename := addr @ '':'' @ show_int dport\<rparr>))))))
                     else Inr s1)
                  else Inr s1)))))"

definition track_sync :: "state \<Rightarrow> string \<Rightarrow> event \<Rightarrow> int \<Rightarrow> py_error + state" where
  "track_sync s name ev cpu =
     (case map_of (cpus s) cpu of
        None \<Rightarrow> Inr s
      | Some None \<Rightarrow> Inr s
      | Some (Some cur) \<Rightarrow>
          ebind (lookup (tids s) cur) (\<lambda>t.
            (let s1 = s\<lparr>pending_syscalls := pending_syscalls s @ [p_oid t]\<rparr>;
                 pk = parent_key t cur
             in ebind (lookup (tids s1) pk) (\<lambda>_.
                  (let s2 = upd_cs s1 cur (\<lambda>cs. cs\<lparr>cs_name := Some name,
                              cs_start := Some (ev_timestamp ev)\<rparr>)
                   in if name \<notin> set [''sys_sync'', ''syscall_entry_sync''] then
                        ebind (ev_int ev ''fd'') (\<lambda>fd.
                        ebind (get_fd s2 pk fd ev) (\<lambda>(a, s3).
                          Inr (upd_cs s3 cur (\<lambda>cs. cs\<lparr>cs_fd := Some a,
                                 cs_filename := Some (f_filename (heap s3 a))\<rparr>))))
                      else Inr s2)))))"

definition track_read_write :: "state \<Rightarrow> string \<Rightarrow> event \<Rightarrow> int \<Rightarrow> py_error + state" where
  "track_read_write s name ev cpu =
     (case map_of (cpus s) cpu of
        None \<Rightarrow> Inr s
      | Some None \<Rightarrow> Inr s
      | Some (Some cur) \<Rightarrow>
          ebind (lookup (tids s) cur) (\<lambda>t.
            (let s1 = s\<lparr>pending_syscalls := pending_syscalls s @ [p_oid t]\<rparr>;
                 pk = parent_key t cur
             in ebind (lookup (tids s1) pk) (\<lambda>_.
                  (let s2 = upd_cs s1 cur (\<lambda>cs. cs\<lparr>cs_name := Some name,
                              cs_start := Some (ev_timestamp ev)\<rparr>)
                   in if name \<in> set [''sys_splice'', ''syscall_entry_splice''] then
                        ebind (ev_int ev ''fd_in'') (\<lambda>fd_in.
                        ebind (get_fd s2 pk fd_in ev) (\<lambda>(a_in, s3).
                        ebind (ev_int ev ''fd_out'') (\<lambda>fd_out.
                        ebind (get_fd s3 pk fd_out ev) (\<lambda>(a_out, s4).
                        ebind (ev_int ev ''len'') (\<lambda>len.
                          Inr (upd_cs s4 cur (\<lambda>cs. cs\<lparr>cs_fd_in := Some a_in,
                                 cs_fd_out := Some a_out, cs_count := Some (Some len),
                                 cs_filename := Some (f_filename (heap s4 a_in))\<rparr>)))))))
                      else if name \<in> set [''sys_sendfile64'', ''syscall_entry_sendfile64''] then
                        ebind (ev_int ev ''in_fd'') (\<lambda>fd_in.
                        ebind (get_fd s2 pk fd_in ev) (\<lambda>(a_in, s3).
                        ebind (ev_int ev ''out_fd'') (\<lambda>fd_out.
                        ebind (get_fd s3 pk fd_out ev) (\<lambda>(a_out, s4).
                        ebind (ev_int ev ''count'') (\<lambda>count.
                          Inr (upd_cs s4 cur (\<lambda>cs. cs\<lparr>cs_fd_in := Some a_in,
                                 cs_fd_out := Some a_out, cs_count := Some (Some count),
                                 cs_filename := Some (f_filename (heap s4 a_in))\<rparr>)))))))
                      else
                        ebind (ev_int ev ''fd'') (\<lambda>fd.
                        ebind (get_fd s2 pk fd ev) (\<lambda>(a, s3).
                        ebind (if name \<in> set [''sys_writev'', ''syscall_entry_writev'',
                                                ''sys_readv'', ''syscall_entry_readv'']
                               then ebind (ev_int ev ''vlen'') (\<lambda>n. Inr (Some n))
                               else if name \<in> set [''sys_recvfrom'', ''syscall_entry_recvfrom'']
                               then ebind (ev_int ev ''size'') (\<lambda>n. Inr (Some n))
                               else if name \<in> set [''sys_recvmsg'', ''syscall_entry_recvmsg'',
                                                     ''sys_sendmsg'', ''syscall_entry_sendmsg'']
                               then Inr None
                               else if name \<in> set [''sys_sendto'', ''syscall_entry_sendto'']
                               then ebind (ev_int ev ''len'') (\<lambda>n. Inr (Some n))
                               else Inr (Some (case ev_ints ev ''count'' of
                                                 Some n \<Rightarrow> n | None \<Rightarrow> 0))) (\<lambda>count.
                          Inr (upd_cs s3 cur (\<lambda>cs. cs\<lparr>cs_fd := Some a, cs_count := Some count,
                                 cs_filename := Some (f_filename (heap s3 a))\<rparr>))))))))))"

definition process_syscall_entry :: "syscall_consts \<Rightarrow> state \<Rightarrow> event \<Rightarrow> py_error + state" where
  \<comment> \<open>\<open>_process_syscall_entry\<close>\<close>
  "process_syscall_entry K s ev =
     (let name = ev_name ev
      in ebind (ev_int ev ''cpu_id'') (\<lambda>cpu.
         ebind (per_tid_syscall_entry s name cpu ev) (\<lambda>s1.
         ebind (track_fds K s1 name ev cpu) (\<lambda>s2.
         ebind (if name \<in> set (READ_SYSCALLS K) \<or> name \<in> set (WRITE_SYSCALLS K)
                then track_read_write s2 name ev cpu else Inr s2) (\<lambda>s3.
           if name \<in> set (SYNC_SYSCALLS K) then track_sync s3 name ev cpu else Inr s3)))))"

subsection \<open>Syscall exit\<close>

definition key :: "'a option \<Rightarrow> py_error + 'a" where
  \<comment> \<open>\<open>current_syscall[k]\<close>: KeyError when the dict has no such key.\<close>
  "key v = (case v of None \<Rightarrow> Inl KeyError | Some x \<Rightarrow> Inr x)"

text \<open>
  \<open>add_tid_fd\<close> in two parts: the descriptor object, which is the closed descriptor of the
  same filename when there is one (and the filename is not generic) and a fresh one
  otherwise, and the statements that store it under the returned fd number.
\<close>

definition add_tid_fd_object :: "syscall_consts \<Rightarrow> state \<Rightarrow> Process \<Rightarrow> current_syscall \<Rightarrow> string \<Rightarrow> py_error + (nat \<times> state)" where
  "add_tid_fd_object K s proc cs name =
     (case (if name \<notin> set (GENERIC_NAMES K)
            then map_of (p_closed_fds proc) name else None) of
        Some a \<Rightarrow> Inr (a, upd_fd s a (\<lambda>f. f\<lparr>f_open := f_open f + 1\<rparr>))
      | None \<Rightarrow>
          ebind (key (cs_name cs)) (\<lambda>csname.
          ebind (if csname \<in> set (NET_OPEN_SYSCALLS K)
                 then ebind (key (cs_family cs)) (\<lambda>fam.
                        Inr (if fam \<in> set (INET_FAMILIES K)
                             then FD_new\<lparr>f_filename := name, f_family := fam,
                                    f_fdtype := T_net\<rparr>
                             else FD_new\<lparr>f_filename := name, f_family := fam\<rparr>))
                 else Inr (FD_new\<lparr>f_filename := name\<rparr>)) (\<lambda>f.
            Inr (alloc_fd s (f\<lparr>f_open := 1\<rparr>)))))"

definition add_tid_fd_store :: "state \<Rightarrow> int \<Rightarrow> nat \<Rightarrow> int \<Rightarrow> current_syscall \<Rightarrow> event \<Rightarrow> state" where
  "add_tid_fd_store s1 pk a ret' cs ev =
     (let s2 = upd_fd s1 a (\<lambda>f. f\<lparr>f_fd := ret'\<rparr>);
          s3 = (if cs_cloexec cs \<noteq> None then upd_fd s2 a (\<lambda>f. f\<lparr>f_cloexec := 1\<rparr>)
                else s2);
          s4 = upd_proc s3 pk (\<lambda>p. p\<lparr>p_fds := AList.update ret' a (p_fds p)\<rparr>)
      in upd_proc s4 pk (\<lambda>p. track_chrono_fd p ret' (f_filename (heap s4 a))
                                (f_fdtype (heap s4 a)) (ev_timestamp ev)))"

definition add_tid_fd :: "syscall_consts \<Rightarrow> state \<Rightarrow> event \<Rightarrow> int \<Rightarrow> py_error + state" where
  "add_tid_fd K s ev cur =
     ebind (ev_int ev ''ret'') (\<lambda>ret'.
     ebind (lookup (tids s) cur) (\<lambda>t.
       (let pk = parent_key t cur; cs = p_current_syscall t
        in ebind (lookup (tids s) pk) (\<lambda>proc.
           ebind (key (cs_filename cs)) (\<lambda>name.
           ebind (add_tid_fd_object K s proc cs name) (\<lambda>(a, s1).
             if ret' \<ge> 0 then Inr (add_tid_fd_store s1 pk a ret' cs ev)
             else Inr s1))))))"

text \<open>
  \<open>read_append(fd, proc, count, rq)\<close> and \<open>write_append\<close>: \<open>a\<close> is the address of \<open>fd\<close>, \<open>pk\<close>
  the key of \<open>proc\<close>; the request is returned with its operation and size set.
\<close>

definition read_append :: "state \<Rightarrow> nat \<Rightarrow> int \<Rightarrow> int \<Rightarrow> IORequest \<Rightarrow> state \<times> IORequest" where
  "read_append s a pk count rq =
     (let rq' = rq\<lparr>rq_operation := Some OP_READ, rq_size := Some count\<rparr>;
          s1 = (if f_fdtype (heap s a) \<in> set [T_net, T_maybe_net] then
                  upd_proc (upd_fd s a (\<lambda>f. f\<lparr>f_net_read := f_net_read f + count\<rparr>)) pk
                    (\<lambda>p. p\<lparr>p_net_read := p_net_read p + count\<rparr>)
                else if f_fdtype (heap s a) = T_disk then
                  upd_proc (upd_fd s a (\<lambda>f. f\<lparr>f_disk_read := f_disk_read f + count\<rparr>)) pk
                    (\<lambda>p. p\<lparr>p_disk_read := p_disk_read p + count\<rparr>)
                else
                  upd_proc (upd_fd s a (\<lambda>f. f\<lparr>f_unk_read := f_unk_read f + count\<rparr>)) pk
                    (\<lambda>p. p\<lparr>p_unk_read := p_unk_read p + count\<rparr>))
      in (upd_proc (upd_fd s1 a (\<lambda>f. f\<lparr>f_read := f_read f + count\<rparr>)) pk
            (\<lambda>p. p\<lparr>p_read := p_read p + count\<rparr>), rq'))"

definition write_append :: "state \<Rightarrow> nat \<Rightarrow> int \<Rightarrow> int \<Rightarrow> IORequest \<Rightarrow> state \<times> IORequest" where
  "write_append s a pk count rq =
     (let rq' = rq\<lparr>rq_operation := Some OP_WRITE, rq_size := Some count\<rparr>;
          s1 = (if f_fdtype (heap s a) \<in> set [T_net, T_maybe_net] then
                  upd_proc (upd_fd s a (\<lambda>f. f\<lparr>f_net_write := f_net_write f + count\<rparr>)) pk
                    (\<lambda>p. p\<lparr>p_net_write := p_net_write p + count\<rparr>)
                else if f_fdtype (heap s a) = T_disk then
                  upd_proc (upd_fd s a (\<lambda>f. f\<lparr>f_disk_write := f_disk_write f + count\<rparr>)) pk
                    (\<lambda>p. p\<lparr>p_disk_write := p_disk_write p + count\<rparr>)
                else
                  upd_proc (upd_fd s a (\<lambda>f. f\<lparr>f_unk_write := f_unk_write f + count\<rparr>)) pk
                    (\<lambda>p. p\<lparr>p_unk_write := p_unk_write p + count\<rparr>))
      in (upd_proc (upd_fd s1 a (\<lambda>f. f\<lparr>f_write := f_write f + count\<rparr>)) pk
            (\<lambda>p. p\<lparr>p_write := p_write p + count\<rparr>), rq'))"

definition set_rq :: "state \<Rightarrow> int \<Rightarrow> IORequest \<Rightarrow> state" where
  \<comment> \<open>The request object is held by the in-flight record of the thread \<open>cur\<close>.\<close>
  "set_rq s cur rq = upd_cs s cur (\<lambda>cs. cs\<lparr>cs_iorequest := Some rq\<rparr>)"

definition track_read_write_return :: "syscall_consts \<Rightarrow> state \<Rightarrow> string \<Rightarrow> int \<Rightarrow> int \<Rightarrow> py_error + state" where
  "track_read_write_return K s name ret' cur =
     (if ret' < 0 then Inr s
      else
        ebind (lookup (tids s) cur) (\<lambda>t.
          (let pk = parent_key t cur; cs = p_current_syscall t
           in ebind (lookup (tids s) pk) (\<lambda>_.
                if name \<in> set [''sys_splice'', ''syscall_entry_splice'',
                                 ''sys_sendfile64'', ''syscall_entry_sendfile64''] then
                  ebind (key (cs_fd_in cs)) (\<lambda>a_in.
                  ebind (key (cs_iorequest cs)) (\<lambda>rq.
                    (let (s1, rq1) = read_append s a_in pk ret' rq
                     in ebind (key (cs_fd_out cs)) (\<lambda>a_out.
                          (let (s2, rq2) = write_append (set_rq s1 cur rq1) a_out pk ret' rq1
                           in Inr (set_rq s2 cur rq2))))))
                else if name \<in> set (READ_SYSCALLS K) then
                  (if ret' > 0 then
                     ebind (key (cs_fd cs)) (\<lambda>a.
                     ebind (key (cs_iorequest cs)) (\<lambda>rq.
                       (let (s1, rq1) = read_append s a pk ret' rq in Inr (set_rq s1 cur rq1))))
                   else Inr s)
                else if name \<in> set (WRITE_SYSCALLS K) then
                  (if ret' > 0 then
                     ebind (key (cs_fd cs)) (\<lambda>a.
                     ebind (key (cs_iorequest cs)) (\<lambda>rq.
                       (let (s1, rq1) = write_append s a pk ret' rq in Inr (set_rq s1 cur rq1))))
                   else Inr s)
                else Inr s))))"

text \<open>
  \<open>track_rw_latency\<close>. The request is one object, appended to the descriptor's list in
  the middle of the function and annotated afterwards; the list therefore shows the
  request as it is at the end of the function.
\<close>

definition track_rw_latency :: "syscall_consts \<Rightarrow> state \<Rightarrow> string \<Rightarrow> event \<Rightarrow> int \<Rightarrow> py_error + state" where
  "track_rw_latency K s name ev cur =
     ebind (lookup (tids s) cur) (\<lambda>t.
       (let cs = p_current_syscall t
        in ebind (key (cs_iorequest cs)) (\<lambda>rq.
           ebind (key (cs_start cs)) (\<lambda>start.
             (let rq1 = rq\<lparr>rq_duration := Some (ev_timestamp ev - start), rq_begin := Some start,
                          rq_end := Some (ev_timestamp ev), rq_proc := Some cur\<rparr>;
                  rq2 = (case cs_fd cs of
                           Some a \<Rightarrow> rq1\<lparr>rq_fd := Some a\<rparr>
                         | None \<Rightarrow> (case cs_fd_in cs of
                                      Some a \<Rightarrow> rq1\<lparr>rq_fd := Some a\<rparr>
                                    | None \<Rightarrow> rq1));
                  rq3 = (case cs_pages_written cs of
                           Some n \<Rightarrow> rq2\<lparr>rq_page_written := n\<rparr> | None \<Rightarrow> rq2);
                  rq4 = (case cs_dirty cs of Some n \<Rightarrow> rq3\<lparr>rq_dirty := n\<rparr> | None \<Rightarrow> rq3);
                  rq5 = (case cs_pages_allocated cs of
                           Some n \<Rightarrow> rq4\<lparr>rq_page_alloc := n\<rparr> | None \<Rightarrow> rq4);
                  rq6 = (case cs_page_free cs of
                           Some n \<Rightarrow> rq5\<lparr>rq_page_free := n\<rparr> | None \<Rightarrow> rq5);
                  rq7 = (if cs_wakeup_kswapd cs \<noteq> None then rq6\<lparr>rq_woke_kswapd := True\<rparr>
                         else rq6);
                  rq8 = (if name \<in> set (SYNC_SYSCALLS K) then
                           (case cs_pages_cleared cs of
                              Some l \<Rightarrow> rq7\<lparr>rq_page_cleared := int (length l)\<rparr>
                            | None \<Rightarrow> rq7)
                         else rq7);
                  s1 = set_rq s cur rq8
              in Inr (case cs_fd cs of
                        Some a \<Rightarrow> upd_fd s1 a (\<lambda>f. f\<lparr>f_iorequests := f_iorequests f @ [rq8]\<rparr>)
                      | None \<Rightarrow> s1))))))"

definition per_tid_syscall_exit :: "state \<Rightarrow> string \<Rightarrow> int \<Rightarrow> event \<Rightarrow> int \<Rightarrow> py_error + state" where
  \<comment> \<open>\<open>_per_tid_syscall_exit\<close>\<close>
  "per_tid_syscall_exit s name ret' ev cur =
     ebind (lookup (tids s) cur) (\<lambda>t.
       (case p_syscalls t name of
          None \<Rightarrow> Inr s
        | Some sc \<Rightarrow>
            ebind (key (cs_start (p_current_syscall t))) (\<lambda>start.
              (let d = ev_timestamp ev - start;
                   se = \<lparr>se_ret = ret', se_entry_ts = start, se_exit_ts = ev_timestamp ev,
                          se_duration = d\<rparr>;
                   sc1 = (if sc_min sc = None \<or> the (sc_min sc) > d then sc\<lparr>sc_min := Some d\<rparr>
                          else sc);
                   sc2 = (if sc_max sc1 < d then sc1\<lparr>sc_max := d\<rparr> else sc1);
                   sc3 = sc2\<lparr>sc_total_duration := sc_total_duration sc2 + d,
                             sc_rq := sc_rq sc2 @ [se]\<rparr>
               in Inr (upd_proc s cur (\<lambda>p. p\<lparr>p_syscalls := (p_syscalls p)(name \<mapsto> sc3)\<rparr>))))))"

definition exit_finish :: "int \<Rightarrow> state \<Rightarrow> py_error + state" where
  \<comment> \<open>The last three lines of \<open>_process_syscall_exit\<close>: the thread returns to idle and
      leaves the pending list.\<close>
  "exit_finish cur s =
     (let s1 = upd_cs s cur (\<lambda>_. cs_empty)
      in ebind (lookup (tids s1) cur) (\<lambda>t.
           Inr (if p_oid t \<in> set (pending_syscalls s1)
                then s1\<lparr>pending_syscalls := remove1 (p_oid t) (pending_syscalls s1)\<rparr>
                else s1)))"

definition set_operation :: "state \<Rightarrow> int \<Rightarrow> int \<Rightarrow> state" where
  \<comment> \<open>\<open>current_syscall['iorequest'].operation = op\<close>\<close>
  "set_operation s cur op =
     upd_cs s cur (\<lambda>cs. cs\<lparr>cs_iorequest := map_option (\<lambda>rq. rq\<lparr>rq_operation := Some op\<rparr>)
                                              (cs_iorequest cs)\<rparr>)"

definition process_syscall_exit :: "syscall_consts \<Rightarrow> state \<Rightarrow> event \<Rightarrow> py_error + state" where
  \<comment> \<open>\<open>_process_syscall_exit\<close>\<close>
  "process_syscall_exit K s ev =
     ebind (ev_int ev ''cpu_id'') (\<lambda>cpu.
       (case map_of (cpus s) cpu of
          None \<Rightarrow> Inr s
        | Some None \<Rightarrow> Inr s
        | Some (Some cur) \<Rightarrow>
            ebind (lookup (tids s) cur) (\<lambda>t.
              if p_current_syscall t = cs_empty then Inr s
              else
                ebind (key (cs_name (p_current_syscall t))) (\<lambda>name.
                ebind (ev_int ev ''ret'') (\<lambda>ret'.
                ebind (per_tid_syscall_exit s name ret' ev cur) (\<lambda>s1.
                  if name \<notin> set (IO_SYSCALLS K) then Inr s1
                  else
                    (let s2 = set_rq s1 cur (IORequest_new\<lparr>rq_iotype := Some IO_SYSCALL,
                                rq_name := Some name\<rparr>)
                     in if name \<in> set (OPEN_SYSCALLS K) then
                          ebind (add_tid_fd K s2 ev cur) (\<lambda>s3.
                            if ret' < 0 then Inr s3
                            else
                              ebind (get_fd s3 cur ret' ev) (\<lambda>(a, s4).
                                (let s5 = upd_cs s4 cur (\<lambda>cs. cs\<lparr>cs_fd := Some a,
                                            cs_count := Some (Some 0)\<rparr>)
                                 in ebind (lookup (tids s5) cur) (\<lambda>t5.
                                    ebind (key (cs_fdtype (p_current_syscall t5))) (\<lambda>fdt.
                                    ebind (track_rw_latency K
                                             (set_operation
                                                (upd_fd s5 a (\<lambda>f. f\<lparr>f_fdtype := fdt\<rparr>)) cur OP_OPEN)
                                             name ev cur)
                                      (exit_finish cur))))))
                        else if name \<in> set (READ_SYSCALLS K) \<or> name \<in> set (WRITE_SYSCALLS K) then
                          ebind (track_read_write_return K s2 name ret' cur) (\<lambda>s3.
                          ebind (track_rw_latency K s3 name ev cur) (exit_finish cur))
                        else if name \<in> set (SYNC_SYSCALLS K) then
                          ebind (track_rw_latency K (set_operation s2 cur OP_SYNC) name ev cur) (\<lambda>s3.
                            if name \<in> set [''sys_sync'', ''syscall_entry_sync''] then
                              ebind (lookup (tids s3) cur) (\<lambda>t3.
                              ebind (key (cs_iorequest (p_current_syscall t3))) (\<lambda>rq.
                                exit_finish cur
                                  (upd_proc s3 cur (\<lambda>p. p\<lparr>p_iorequests := p_iorequests p @ [rq]\<rparr>))))
                            else exit_finish cur s3)
                        else exit_finish cur s2)))))))"

subsection \<open>Side-channel events\<close>

fun writeback_loop :: "state \<Rightarrow> event \<Rightarrow> (int \<times> int option) list \<Rightarrow> py_error + state" where
  "writeback_loop s ev [] = Inr s"
| "writeback_loop s ev ((c, None) # rest) = writeback_loop s ev rest"
| "writeback_loop s ev ((c, Some cur) # rest) =
     (case lookup (tids s) cur of
        Inl e \<Rightarrow> Inl e
      | Inr t \<Rightarrow>
          if p_current_syscall t = cs_empty then writeback_loop s ev rest
          else (case ev_int ev ''pages'' of
                  Inl e \<Rightarrow> Inl e
                | Inr pages \<Rightarrow>
                    writeback_loop (upd_cs s cur (\<lambda>cs. cs\<lparr>cs_pages_written := Some pages\<rparr>))
                      ev rest))"

definition process_writeback_pages_written :: "state \<Rightarrow> event \<Rightarrow> py_error + state" where
  \<comment> \<open>\<open>_process_writeback_pages_written\<close>: the loop over \<open>self.cpus.values()\<close>\<close>
  "process_writeback_pages_written s ev = writeback_loop s ev (cpus s)"

definition process_mm_vmscan_wakeup_kswapd :: "state \<Rightarrow> event \<Rightarrow> py_error + state" where
  \<comment> \<open>\<open>_process_mm_vmscan_wakeup_kswapd\<close>; the source returns when the record is not
      empty (\<open>if current_syscall: return\<close>).\<close>
  "process_mm_vmscan_wakeup_kswapd s ev =
     ebind (ev_int ev ''cpu_id'') (\<lambda>cpu.
       (case map_of (cpus s) cpu of
          None \<Rightarrow> Inr s
        | Some None \<Rightarrow> Inr s
        | Some (Some cur) \<Rightarrow>
            ebind (lookup (tids s) cur) (\<lambda>t.
              if p_current_syscall t \<noteq> cs_empty then Inr s
              else Inr (upd_cs s cur (\<lambda>cs. cs\<lparr>cs_wakeup_kswapd := Some 1\<rparr>)))))"

fun page_free_loop :: "state \<Rightarrow> (int \<times> int option) list \<Rightarrow> py_error + state" where
  "page_free_loop s [] = Inr s"
| "page_free_loop s ((c, None) # rest) = page_free_loop s rest"
| "page_free_loop s ((c, Some cur) # rest) =
     (case lookup (tids s) cur of
        Inl e \<Rightarrow> Inl e
      | Inr t \<Rightarrow>
          (case (if p_comm t = ''kswapd0'' \<and> p_prev_tid t > 0
                 then ebind (lookup (tids s) (p_prev_tid t)) (\<lambda>p. Inr (p_prev_tid t, p))
                 else Inr (cur, t)) of
             Inl e \<Rightarrow> Inl e
           | Inr (k, p) \<Rightarrow>
               if p_current_syscall p \<noteq> cs_empty then page_free_loop s rest
               else if cs_wakeup_kswapd (p_current_syscall p) \<noteq> None then
                 page_free_loop
                   (upd_cs s k (\<lambda>cs. cs\<lparr>cs_page_free :=
                      Some (case cs_page_free cs of Some n \<Rightarrow> n + 1 | None \<Rightarrow> 1)\<rparr>)) rest
               else page_free_loop s rest))"

definition process_mm_page_free :: "state \<Rightarrow> event \<Rightarrow> py_error + state" where
  \<comment> \<open>\<open>_process_mm_page_free\<close>; the source skips the CPU when the record is not empty
      (\<open>if current_syscall: continue\<close>).\<close>
  "process_mm_page_free s ev = page_free_loop s (cpus s)"

section \<open>Statedump reconciler (src/linuxautomaton/linuxautomaton/statedump.py)\<close>

definition set_last_filename :: "(int \<times> string \<times> FDType) list \<Rightarrow> string \<Rightarrow> py_error + (int \<times> string \<times> FDType) list" where
  \<comment> \<open>\<open>last_ts = next(reversed(chrono_fd)); chrono_fd[last_ts]['filename'] = name\<close>:
      StopIteration on an empty history.\<close>
  "set_last_filename l name =
     (if l = [] then Inl StopIteration
      else Inr (butlast l @ [(fst (last l), name, snd (snd (last l)))]))"

text \<open>
  The first loop of \<open>merge_fd_dict(p, parent)\<close>, over the open table of the child as it is
  when the loop starts (the loop does not change it); \<open>ck\<close> and \<open>pk\<close> are the keys of the
  child and of the parent.
\<close>

fun merge_fds_loop :: "state \<Rightarrow> int \<Rightarrow> int \<Rightarrow> (int \<times> nat) list \<Rightarrow> py_error + state" where
  "merge_fds_loop s ck pk [] = Inr s"
| "merge_fds_loop s ck pk ((fd, a) # rest) =
     (case lookup (tids s) ck of
        Inl e \<Rightarrow> Inl e
      | Inr p \<Rightarrow>
     (case lookup (tids s) pk of
        Inl e \<Rightarrow> Inl e
      | Inr parent \<Rightarrow>
     (case map_of (p_fds parent) fd of
        None \<Rightarrow>
          (case lookup (p_chrono_fds p) fd of
             Inl e \<Rightarrow> Inl e
           | Inr h \<Rightarrow>
               merge_fds_loop
                 (upd_proc s pk (\<lambda>q. q\<lparr>p_fds := AList.update fd a (p_fds q),
                                        p_chrono_fds := (p_chrono_fds q)(fd \<mapsto> h)\<rparr>))
                 ck pk rest)
      | Some b \<Rightarrow>
          (case (if f_filename (heap s b) = [] then
                   ebind (lookup (p_chrono_fds parent) fd) (\<lambda>h.
                   ebind (set_last_filename h (f_filename (heap s a))) (\<lambda>h'.
                     Inr (upd_proc (upd_fd s b (\<lambda>f. f\<lparr>f_filename := f_filename (heap s a)\<rparr>)) pk
                            (\<lambda>q. q\<lparr>p_chrono_fds := (p_chrono_fds q)(fd \<mapsto> h')\<rparr>))))
                 else Inr s) of
             Inl e \<Rightarrow> Inl e
           | Inr s0 \<Rightarrow>
               (let s1 = upd_fd s0 b (\<lambda>f. f\<lparr>f_net_read := f_net_read f + f_net_read (heap s0 a)\<rparr>);
                    s2 = upd_fd s1 b (\<lambda>f. f\<lparr>f_net_write := f_net_write f + f_net_write (heap s1 a)\<rparr>);
                    s3 = upd_fd s2 b (\<lambda>f. f\<lparr>f_disk_read := f_disk_read f + f_disk_read (heap s2 a)\<rparr>);
                    s4 = upd_fd s3 b (\<lambda>f. f\<lparr>f_disk_write := f_disk_write f + f_disk_write (heap s3 a)\<rparr>)
                in merge_fds_loop s4 ck pk rest)))))"

fun remove_fds_loop :: "state \<Rightarrow> int \<Rightarrow> int list \<Rightarrow> py_error + state" where
  \<comment> \<open>\<open>for fd in toremove: del p.fds[fd]; del p.chrono_fds[fd]\<close>\<close>
  "remove_fds_loop s ck [] = Inr s"
| "remove_fds_loop s ck (fd # rest) =
     (case lookup (tids s) ck of
        Inl e \<Rightarrow> Inl e
      | Inr p \<Rightarrow>
          if map_of (p_fds p) fd = None \<or> p_chrono_fds p fd = None then Inl KeyError
          else remove_fds_loop
                 (upd_proc s ck (\<lambda>q. q\<lparr>p_fds := AList.delete fd (p_fds q),
                                        p_chrono_fds := (p_chrono_fds q)(fd := None)\<rparr>))
                 ck rest)"

text \<open>
  The second loop of \<open>merge_fd_dict\<close> iterates \<open>p.closed_fds.keys()\<close> and deletes the key
  from \<open>p.closed_fds\<close> at the end of its body. A Python dict that changes size while
  it is iterated makes the iterator raise RuntimeError when it is asked for the next
  key: the body runs for the first key, then the loop raises. In the body a filename
  that the parent already holds reads \<open>parent.closed_fds[fd].name\<close>, an attribute that
  \<open>FD\<close> objects do not have.
\<close>

definition merge_closed_fds :: "state \<Rightarrow> int \<Rightarrow> int \<Rightarrow> py_error + state" where
  "merge_closed_fds s ck pk =
     ebind (lookup (tids s) ck) (\<lambda>p.
     ebind (lookup (tids s) pk) (\<lambda>parent.
       (case p_closed_fds p of
          [] \<Rightarrow> Inr s
        | (name, a) # rest \<Rightarrow>
            ebind (if map_of (p_closed_fds parent) name = None
                   then Inr (upd_proc s pk
                          (\<lambda>q. q\<lparr>p_closed_fds := AList.update name a (p_closed_fds q)\<rparr>))
                   else Inl AttributeError) (\<lambda>s1.
            ebind (Inr (upd_proc s1 ck
                     (\<lambda>q. q\<lparr>p_closed_fds := AList.delete name (p_closed_fds q)\<rparr>))) (\<lambda>s2.
              Inl RuntimeError)))))"

definition merge_fd_dict :: "state \<Rightarrow> int \<Rightarrow> int \<Rightarrow> py_error + state" where
  "merge_fd_dict s ck pk =
     ebind (lookup (tids s) ck) (\<lambda>p.
     ebind (if p_fds p \<noteq> []
            then ebind (merge_fds_loop s ck pk (p_fds p))
                   (\<lambda>s1. remove_fds_loop s1 ck (map fst (p_fds p)))
            else Inr s) (\<lambda>s2.
       merge_closed_fds s2 ck pk))"

definition process_lttng_statedump_process_state :: "state \<Rightarrow> event \<Rightarrow> py_error + state" where
  \<comment> \<open>\<open>_process_lttng_statedump_process_state\<close>\<close>
  "process_lttng_statedump_process_state s ev =
     ebind (ev_int ev ''tid'') (\<lambda>tid.
     ebind (ev_int ev ''pid'') (\<lambda>pid.
     ebind (ev_str ev ''name'') (\<lambda>name.
       (let s1 = (if tids s tid = None
                  then s\<lparr>tids := (tids s)(tid \<mapsto> (Process_new (next_oid s))\<lparr>p_tid := Some tid\<rparr>),
                         next_oid := Suc (next_oid s)\<rparr>
                  else s);
            s2 = upd_proc s1 tid (\<lambda>p. p\<lparr>p_pid := Some pid, p_comm := name\<rparr>)
        in if pid \<noteq> tid then
             (let s3 = (if tids s2 pid = None
                        then s2\<lparr>tids := (tids s2)(pid \<mapsto> (Process_new (next_oid s2))
                                   \<lparr>p_tid := Some pid, p_pid := Some pid, p_comm := name\<rparr>),
                                 next_oid := Suc (next_oid s2)\<rparr>
                        else s2)
              in merge_fd_dict s3 tid pid)
           else Inr s2))))"

definition process_lttng_statedump_file_descriptor :: "state \<Rightarrow> event \<Rightarrow> py_error + state" where
  \<comment> \<open>\<open>_process_lttng_statedump_file_descriptor\<close>\<close>
  "process_lttng_statedump_file_descriptor s ev =
     ebind (ev_int ev ''pid'') (\<lambda>pid.
     ebind (ev_int ev ''fd'') (\<lambda>fd.
     ebind (ev_str ev ''filename'') (\<lambda>filename.
     ebind (ev_int ev ''flags'') (\<lambda>flags.
       (let cloexec = (if flags AND O_CLOEXEC = O_CLOEXEC then 1 else 0);
            s1 = (if tids s pid = None
                  then s\<lparr>tids := (tids s)(pid \<mapsto> (Process_new (next_oid s))
                             \<lparr>p_pid := Some pid, p_tid := Some pid\<rparr>),
                         next_oid := Suc (next_oid s)\<rparr>
                  else s)
        in ebind (lookup (tids s1) pid) (\<lambda>proc.
             (let (a, s2) = (case map_of (p_fds proc) fd of
                               None \<Rightarrow>
                                 (let (a, s') = alloc_fd s1 (FD_new\<lparr>f_filename := filename,
                                                   f_fd := fd, f_cloexec := cloexec\<rparr>)
                                  in (a, upd_proc s' pid
                                           (\<lambda>p. p\<lparr>p_fds := AList.update fd a (p_fds p)\<rparr>)))
                             | Some a \<Rightarrow> (a, upd_fd s1 a (\<lambda>f. f\<lparr>f_filename := filename\<rparr>)))
              in Inr (upd_proc s2 pid (\<lambda>p. track_chrono_fd p fd filename
                                               (f_fdtype (heap s2 a)) (ev_timestamp ev))))))))))"

section \<open>The name catalog\<close>

text \<open>
  The lists of class \<open>SyscallConsts\<close> as src/old/LTTngAnalyzes/common.py declares them.
  Modelled from the spec: that class has no list \<open>IO_SYSCALLS\<close>, which the exit handler
  reads from \<open>sv.SyscallConsts\<close>; the specification classifies a syscall into open, read,
  write, sync or other by membership in the catalog and has a close family, so the list
  is the union of the open, close, read, write and sync lists.
\<close>

definition SyscallConsts :: syscall_consts where
  "SyscallConsts =
     (let disk_open = [''sys_open'', ''syscall_entry_open'', ''sys_openat'', ''syscall_entry_openat''];
          net_open = [''sys_accept'', ''syscall_entry_accept'', ''sys_socket'', ''syscall_entry_socket''];
          dup_open = [''sys_fcntl'', ''syscall_entry_fcntl'', ''sys_dup2'', ''syscall_entry_dup2''];
          sync = [''sys_sync'', ''syscall_entry_sync'', ''sys_sync_file_range'',
                  ''syscall_entry_sync_file_range'', ''sys_fsync'', ''syscall_entry_fsync'',
                  ''sys_fdatasync'', ''syscall_entry_fdatasync''];
          close = [''sys_close'', ''syscall_entry_close''];
          read = [''sys_read'', ''syscall_entry_read'', ''sys_recvmsg'', ''syscall_entry_recvmsg'',
                  ''sys_recvfrom'', ''syscall_entry_recvfrom'', ''sys_splice'',
                  ''syscall_entry_splice'', ''sys_readv'', ''syscall_entry_readv'',
                  ''sys_sendfile64'', ''syscall_entry_sendfile64''];
          write = [''sys_write'', ''syscall_entry_write'', ''sys_sendmsg'', ''syscall_entry_sendmsg'',
                   ''sys_sendto'', ''syscall_entry_sendto'', ''sys_writev'', ''syscall_entry_writev'']
      in \<lparr>INET_FAMILIES = [AF_INET, AF_INET6], DISK_FAMILIES = [AF_UNIX],
           DISK_OPEN_SYSCALLS = disk_open, NET_OPEN_SYSCALLS = net_open,
           OPEN_SYSCALLS = disk_open @ net_open @ dup_open, CLOSE_SYSCALLS = close,
           READ_SYSCALLS = read, WRITE_SYSCALLS = write, SYNC_SYSCALLS = sync,
           IO_SYSCALLS = (disk_open @ net_open @ dup_open) @ close @ read @ write @ sync,
           GENERIC_NAMES = [''unknown'', ''socket'']\<rparr>)"

section \<open>States and events of the examples\<close>

definition state_init :: state where
  \<comment> \<open>No CPU, no thread, no descriptor.\<close>
  "state_init = \<lparr>cpus = [], tids = Map.empty, syscalls = Map.empty, syscalls_total = 0,
     pending_syscalls = [], heap = (\<lambda>_. FD_new), next_fd = 0, next_oid = 0\<rparr>"


definition two_fd_state :: "string \<Rightarrow> state" where
  \<comment> \<open>Process 1 holds the open descriptor 5 (object 0, 5 bytes read from the network) and
      a closed descriptor of the same filename (object 1, 10 bytes).\<close>
  "two_fd_state filename =
     state_init\<lparr>tids := [1 \<mapsto> (Process_new 0)\<lparr>p_tid := Some 1, p_pid := Some 1,
                    p_fds := [(5, 0)], p_closed_fds := [(filename, 1)]\<rparr>],
       heap := (\<lambda>_. FD_new)
         (0 := FD_new\<lparr>f_filename := filename, f_fd := 5, f_net_read := 5, f_open := 1\<rparr>,
          1 := FD_new\<lparr>f_filename := filename, f_fd := 3, f_net_read := 10, f_open := 1,
                 f_close := 1\<rparr>),
       next_fd := 2, next_oid := 1\<rparr>"

definition mk_event :: "string \<Rightarrow> int \<Rightarrow> (string \<times> int) list \<Rightarrow> (string \<times> string) list \<Rightarrow> event" where
  \<comment> \<open>An event with numeric and string payload fields and no context field.\<close>
  "mk_event name ts ints strs = \<lparr>ev_name = name, ev_timestamp = ts, ev_ints = map_of ints,
     ev_strs = map_of strs, ev_seqs = Map.empty, ev_context = [],
     ev_payload = map fst ints @ map fst strs\<rparr>"

definition thread_state :: "(string \<times> nat) list \<Rightarrow> state" where
  \<comment> \<open>Thread 2 holds the open descriptor 5 (object 0) with its history and the given
      closed table; process 1 holds nothing.\<close>
  "thread_state closed =
     state_init\<lparr>tids := [1 \<mapsto> (Process_new 0)\<lparr>p_tid := Some 1, p_pid := Some 1\<rparr>,
                  2 \<mapsto> (Process_new 1)\<lparr>p_tid := Some 2, p_fds := [(5, 0)],
                         p_chrono_fds := [5 \<mapsto> [(10, ''/tmp/a'', T_unknown)]],
                         p_closed_fds := closed\<rparr>],
       heap := (\<lambda>_. FD_new)
         (0 := FD_new\<lparr>f_filename := ''/tmp/a'', f_fd := 5, f_net_read := 5, f_open := 1\<rparr>,
          1 := FD_new\<lparr>f_filename := ''/tmp/b'', f_fd := 3, f_net_read := 10, f_open := 1,
                 f_close := 1\<rparr>),
       next_fd := 2, next_oid := 2\<rparr>"

definition fd_record :: event where
  "fd_record = mk_event ''lttng_statedump_file_descriptor'' 20
     [(''pid'', 1), (''fd'', 5), (''flags'', 524288)] [(''filename'', ''/tmp/b'')]"

definition process_record :: event where
  "process_record = mk_event ''lttng_statedump_process_state'' 20
     [(''tid'', 2), (''pid'', 1)] [(''name'', ''app'')]"

text \<open>An event of the syscall stream, and the state after a sequence of them.\<close>

datatype sys_ev = SyscallEntry event | SyscallExit event

fun sys_step :: "syscall_consts \<Rightarrow> state \<Rightarrow> sys_ev \<Rightarrow> py_error + state" where
  "sys_step K s (SyscallEntry e) = process_syscall_entry K s e"
| "sys_step K s (SyscallExit e) = process_syscall_exit K s e"

fun sys_run :: "syscall_consts \<Rightarrow> state \<Rightarrow> sys_ev list \<Rightarrow> py_error + state" where
  "sys_run K s [] = Inr s"
| "sys_run K s (e # es) = (case sys_step K s e of Inl x \<Rightarrow> Inl x | Inr s' \<Rightarrow> sys_run K s' es)"

definition scenario_state :: state where
  \<comment> \<open>Thread 42, its own process, is current on CPU 0.\<close>
  "scenario_state =
     state_init\<lparr>cpus := [(0, Some 42)],
       tids := [42 \<mapsto> (Process_new 0)\<lparr>p_tid := Some 42, p_pid := Some 42\<rparr>],
       next_oid := 1\<rparr>"

definition open_entry :: event where
  "open_entry = mk_event ''syscall_entry_open'' 100
     [(''cpu_id'', 0), (''flags'', 0)] [(''filename'', ''/tmp/a'')]"

definition open_exit :: "int \<Rightarrow> int \<Rightarrow> event" where
  \<comment> \<open>The exit of the open at time \<open>t\<close> with return value \<open>r\<close>.\<close>
  "open_exit t r = mk_event ''syscall_exit_open'' t [(''cpu_id'', 0), (''ret'', r)] []"

definition read_entry :: event where
  "read_entry = mk_event ''syscall_entry_read'' 110
     [(''cpu_id'', 0), (''fd'', 5), (''count'', 4096)] []"

definition read_exit :: event where
  "read_exit = mk_event ''syscall_exit_read'' 115 [(''cpu_id'', 0), (''ret'', 1000)] []"

definition exit_event :: "int \<Rightarrow> int \<Rightarrow> event" where
  \<comment> \<open>A syscall exit on CPU 0 at time \<open>t\<close> with return value \<open>r\<close>.\<close>
  "exit_event t r = mk_event ''syscall_exit'' t [(''cpu_id'', 0), (''ret'', r)] []"

definition entry_event :: "string \<Rightarrow> int \<Rightarrow> event" where
  \<comment> \<open>The entry of a syscall without arguments on CPU 0 at time \<open>t\<close>.\<close>
  "entry_event name t = mk_event name t [(''cpu_id'', 0)] []"

definition inflight_state :: "string \<Rightarrow> state" where
  \<comment> \<open>Thread 42 is current on CPU 0, in a syscall of the given name since time 100.\<close>
  "inflight_state name =
     scenario_state\<lparr>tids := [42 \<mapsto> (Process_new 0)\<lparr>p_tid := Some 42, p_pid := Some 42,
        p_current_syscall := cs_empty\<lparr>cs_name := Some name, cs_start := Some 100\<rparr>\<rparr>]\<rparr>"

text \<open>
  What the exit handler may do to the request lists before it records the request:
  no list of a descriptor gains a request, no list of a process changes, and the thread
  \<open>cur\<close> keeps the start timestamp of its in-flight record.
\<close>

definition frame :: "int \<Rightarrow> state \<Rightarrow> state \<Rightarrow> bool" where
  "frame cur s s' =
     ((\<forall>a. set (f_iorequests (heap s' a)) \<subseteq> set (f_iorequests (heap s a))) \<and>
      (\<forall>k p'. tids s' k = Some p' \<longrightarrow>
         (\<exists>p. tids s k = Some p \<and> p_iorequests p' = p_iorequests p)) \<and>
      (\<forall>p. tids s cur = Some p \<longrightarrow>
         (\<exists>p'. tids s' cur = Some p' \<and>
            cs_start (p_current_syscall p') = cs_start (p_current_syscall p))))"

definition completed :: "current_syscall \<Rightarrow> event \<Rightarrow> IORequest \<Rightarrow> bool" where
  \<comment> \<open>The request spans the in-flight record's start and the exit event's timestamp.\<close>
  "completed cs ev rq =
     (\<exists>start. cs_start cs = Some start \<and>
        rq_duration rq = Some (ev_timestamp ev - start) \<and>
        rq_begin rq = Some start \<and> rq_end rq = Some (ev_timestamp ev))"

definition recorded :: "state \<Rightarrow> state \<Rightarrow> (IORequest \<Rightarrow> bool) \<Rightarrow> bool" where
  \<comment> \<open>Every request that a list of a descriptor or of a process holds in \<open>s'\<close> and did not
      hold in \<open>s\<close> satisfies \<open>P\<close>.\<close>
  "recorded s s' P =
     ((\<forall>a rq. rq \<in> set (f_iorequests (heap s' a)) \<longrightarrow>
          rq \<in> set (f_iorequests (heap s a)) \<or> P rq) \<and>
      (\<forall>k p' rq. tids s' k = Some p' \<longrightarrow> rq \<in> set (p_iorequests p') \<longrightarrow>
          (\<exists>p. tids s k = Some p \<and> rq \<in> set (p_iorequests p)) \<or> P rq))"

definition annotate_pages :: "int \<Rightarrow> Process \<Rightarrow> Process" where
  \<comment> \<open>The thread with the event's page count stored in its in-flight record.\<close>
  "annotate_pages n p = p\<lparr>p_current_syscall := (p_current_syscall p)\<lparr>cs_pages_written := Some n\<rparr>\<rparr>"

definition pages_event :: "int \<Rightarrow> event" where
  "pages_event n = mk_event ''writeback_pages_written'' 120 [(''cpu_id'', 1), (''pages'', n)] []"

definition cpu0_event :: "string \<Rightarrow> event" where
  \<comment> \<open>A reclaim-wakeup or page-free event raised on CPU 0.\<close>
  "cpu0_event name = mk_event name 120 [(''cpu_id'', 0)] []"

definition woken_state :: state where
  \<comment> \<open>Thread 42 is in a read since time 100 and has woken the reclaim worker.\<close>
  "woken_state =
     scenario_state\<lparr>tids := [42 \<mapsto> (Process_new 0)\<lparr>p_tid := Some 42, p_pid := Some 42,
        p_current_syscall := cs_empty\<lparr>cs_name := Some ''syscall_entry_read'',
          cs_start := Some 100, cs_wakeup_kswapd := Some 1\<rparr>\<rparr>]\<rparr>"

text \<open>
  The CPU table is written by the scheduling collaborator, which is outside the engine:
  \<open>set_current\<close> is its write of the current thread of one CPU.
\<close>

definition set_current :: "state \<Rightarrow> int \<Rightarrow> int option \<Rightarrow> state" where
  "set_current s cpu tid = s\<lparr>cpus := AList.update cpu tid (cpus s)\<rparr>"

definition two_cpu_state :: state where
  \<comment> \<open>Thread 42 is current on CPU 0, CPU 1 runs no known thread.\<close>
  "two_cpu_state = scenario_state\<lparr>cpus := [(0, Some 42), (1, None)]\<rparr>"

definition exit_event_on :: "int \<Rightarrow> int \<Rightarrow> int \<Rightarrow> event" where
  \<comment> \<open>A syscall exit on the given CPU at time \<open>t\<close> with return value \<open>r\<close>.\<close>
  "exit_event_on cpu t r = mk_event ''syscall_exit'' t [(''cpu_id'', cpu), (''ret'', r)] []"

section \<open>Basic facts about the state\<close>

lemma ebind_Inr_iff: "(ebind x f = Inr r) = (\<exists>y. x = Inr y \<and> f y = Inr r)"
  by (cases x) auto

lemma lookup_Some: "m k = Some v \<Longrightarrow> lookup m k = Inr v"
  by (simp add: lookup_def)

lemma lookup_Inr_iff: "(lookup m k = Inr v) = (m k = Some v)"
  by (simp add: lookup_def split: option.splits)

lemma heap_upd_fd: "heap (upd_fd s a f) = (heap s)(a := f (heap s a))"
  by (simp add: upd_fd_def)

lemma tids_upd_fd: "tids (upd_fd s a f) = tids s"
  by (simp add: upd_fd_def)

lemma heap_upd_proc: "heap (upd_proc s k f) = heap s"
  by (simp add: upd_proc_def split: option.splits)

lemma tids_upd_proc: "tids s k = Some p \<Longrightarrow> tids (upd_proc s k f) = (tids s)(k \<mapsto> f p)"
  by (simp add: upd_proc_def)

lemma next_upd_proc: "next_fd (upd_proc s k f) = next_fd s"
  by (simp add: upd_proc_def split: option.splits)

lemma key_Inr_iff: "(key v = Inr x) = (v = Some x)"
  by (simp add: key_def split: option.splits)

lemma exit_finish_idle:
  "exit_finish cur s = Inr s' \<Longrightarrow> \<exists>p. tids s' cur = Some p \<and> p_current_syscall p = cs_empty"
  by (auto simp: exit_finish_def Let_def ebind_Inr_iff lookup_Inr_iff upd_cs_def upd_proc_def
      split: option.splits if_splits)

lemma per_tid_syscall_exit_cs:
  "per_tid_syscall_exit s name r ev cur = Inr s1 \<Longrightarrow> tids s cur = Some t \<Longrightarrow>
   \<exists>p. tids s1 cur = Some p \<and> p_current_syscall p = p_current_syscall t"
  by (auto simp: per_tid_syscall_exit_def Let_def ebind_Inr_iff lookup_Inr_iff upd_proc_def
      split: option.splits)

lemma set_rq_cs:
  "tids s cur = Some p \<Longrightarrow>
   \<exists>q. tids (set_rq s cur rq) cur = Some q \<and> cs_iorequest (p_current_syscall q) = Some rq"
  by (simp add: set_rq_def upd_cs_def upd_proc_def)

lemma add_tid_fd_failed:
  "add_tid_fd K s ev cur = Inr s3 \<Longrightarrow> ev_ints ev ''ret'' = Some r \<Longrightarrow> r < 0 \<Longrightarrow> tids s3 = tids s"
  by (auto simp: add_tid_fd_def add_tid_fd_object_def Let_def ebind_Inr_iff lookup_Inr_iff
      key_Inr_iff ev_int_def upd_fd_def alloc_fd_def split: option.splits if_splits)

section \<open>What the exit handler leaves unchanged\<close>

lemma frame_refl: "frame cur s s"
  by (simp add: frame_def)

lemma frame_trans: "frame cur s1 s2 \<Longrightarrow> frame cur s2 s3 \<Longrightarrow> frame cur s1 s3"
  unfolding frame_def
  apply (intro conjI allI impI)
    apply (meson subset_trans)
   apply metis
  apply metis
  done

lemma frame_upd_fd:
  "frame cur s0 s \<Longrightarrow> f_iorequests (f (heap s a)) = f_iorequests (heap s a) \<Longrightarrow>
   frame cur s0 (upd_fd s a f)"
  by (erule frame_trans) (simp add: frame_def upd_fd_def)

lemma frame_upd_proc:
  "frame cur s0 s \<Longrightarrow> (\<And>p. p_iorequests (f p) = p_iorequests p) \<Longrightarrow>
   (\<And>p. k = cur \<Longrightarrow> cs_start (p_current_syscall (f p)) = cs_start (p_current_syscall p)) \<Longrightarrow>
   frame cur s0 (upd_proc s k f)"
  by (erule frame_trans) (auto simp: frame_def upd_proc_def split: option.splits)

lemma frame_upd_cs:
  "frame cur s0 s \<Longrightarrow> (\<And>cs. k = cur \<Longrightarrow> cs_start (f cs) = cs_start cs) \<Longrightarrow>
   frame cur s0 (upd_cs s k f)"
  unfolding upd_cs_def by (rule frame_upd_proc) simp_all

lemma frame_alloc_fd:
  "frame cur s0 s \<Longrightarrow> f_iorequests fd = [] \<Longrightarrow>
   frame cur s0 (s\<lparr>heap := (heap s)(n := fd), next_fd := m\<rparr>)"
  by (erule frame_trans) (auto simp: frame_def split: if_splits)

lemmas frame_intros = frame_upd_fd frame_upd_proc frame_upd_cs frame_alloc_fd frame_refl

lemma frame_per_tid_syscall_exit:
  "per_tid_syscall_exit s name r ev cur' = Inr s' \<Longrightarrow> frame cur s s'"
  by (auto simp: per_tid_syscall_exit_def Let_def ebind_Inr_iff lookup_Inr_iff key_Inr_iff
      intro!: frame_intros split: option.splits)

lemma frame_set_rq: "frame cur s0 s \<Longrightarrow> frame cur s0 (set_rq s k rq)"
  by (auto simp: set_rq_def intro!: frame_intros)

lemma frame_set_operation: "frame cur s0 s \<Longrightarrow> frame cur s0 (set_operation s k op)"
  by (auto simp: set_operation_def intro!: frame_intros)

lemma frame_get_fd: "get_fd s pk fd ev = Inr (a, s') \<Longrightarrow> frame cur s s'"
  by (auto simp: get_fd_def Let_def ebind_Inr_iff lookup_Inr_iff alloc_fd_def track_chrono_fd_def
      FD_new_def intro!: frame_intros split: option.splits prod.splits)

lemma frame_read_append: "read_append s a pk n rq = (s', rq') \<Longrightarrow> frame cur s s'"
  unfolding read_append_def Let_def
  by (auto intro!: frame_intros split: if_splits)

lemma frame_write_append: "write_append s a pk n rq = (s', rq') \<Longrightarrow> frame cur s s'"
  unfolding write_append_def Let_def
  by (auto intro!: frame_intros split: if_splits)

lemma frame_add_tid_fd_object:
  "add_tid_fd_object K s proc cs name = Inr (a, s1) \<Longrightarrow> frame cur s s1"
  by (auto simp: add_tid_fd_object_def ebind_Inr_iff FD_new_def alloc_fd_def
      intro!: frame_intros split: option.splits if_splits)

lemma frame_add_tid_fd_store:
  "frame cur s0 s1 \<Longrightarrow> frame cur s0 (add_tid_fd_store s1 pk a r cs ev)"
  by (auto simp: add_tid_fd_store_def Let_def track_chrono_fd_def intro!: frame_intros)

lemma frame_add_tid_fd:
  "add_tid_fd K s ev cur' = Inr s' \<Longrightarrow> frame cur s s'"
  by (auto simp: add_tid_fd_def Let_def ebind_Inr_iff split: if_splits
      intro!: frame_add_tid_fd_store dest: frame_add_tid_fd_object)

lemma frame_fst_read_append:
  "frame cur s0 s \<Longrightarrow> frame cur s0 (fst (read_append s a pk n rq))"
  by (metis frame_read_append frame_trans prod.collapse)

lemma frame_fst_write_append:
  "frame cur s0 s \<Longrightarrow> frame cur s0 (fst (write_append s a pk n rq))"
  by (metis frame_write_append frame_trans prod.collapse)

lemma frame_track_read_write_return:
  "track_read_write_return K s name r cur' = Inr s' \<Longrightarrow> frame cur s s'"
  by (auto simp: track_read_write_return_def Let_def ebind_Inr_iff case_prod_beta
      split: if_splits
      intro!: frame_set_rq frame_fst_read_append frame_fst_write_append frame_refl)

lemma frame_start:
  "frame cur s s' \<Longrightarrow> tids s cur = Some t \<Longrightarrow>
   \<exists>t'. tids s' cur = Some t' \<and> cs_start (p_current_syscall t') = cs_start (p_current_syscall t)"
  by (simp add: frame_def)

lemma completed_cong:
  "cs_start cs' = cs_start cs \<Longrightarrow> completed cs' ev rq = completed cs ev rq"
  by (simp add: completed_def)

lemma frame_recorded: "frame cur s s' \<Longrightarrow> recorded s s' P"
  by (fastforce simp: frame_def recorded_def)

lemma recorded_frame: "recorded s1 s2 P \<Longrightarrow> frame cur s2 s3 \<Longrightarrow> recorded s1 s3 P"
  unfolding recorded_def frame_def
  apply (intro conjI allI impI)
   apply (meson subsetD)
  apply metis
  done

lemma frame_then_recorded: "frame cur s1 s2 \<Longrightarrow> recorded s2 s3 P \<Longrightarrow> recorded s1 s3 P"
  unfolding recorded_def frame_def
  apply (intro conjI allI impI)
   apply (meson subsetD)
  apply metis
  done

lemma track_rw_latency_records:
  assumes "track_rw_latency K s name ev cur = Inr s'" and "tids s cur = Some t"
  shows "\<exists>rq. completed (p_current_syscall t) ev rq \<and>
     (\<forall>a. set (f_iorequests (heap s' a)) \<subseteq> insert rq (set (f_iorequests (heap s a)))) \<and>
     (\<forall>k p'. tids s' k = Some p' \<longrightarrow> (\<exists>p. tids s k = Some p \<and> p_iorequests p' = p_iorequests p)) \<and>
     (\<exists>p'. tids s' cur = Some p' \<and> cs_iorequest (p_current_syscall p') = Some rq)"
  using assms
  by (auto simp: track_rw_latency_def Let_def ebind_Inr_iff lookup_Inr_iff key_Inr_iff completed_def
      set_rq_def upd_cs_def upd_proc_def upd_fd_def split: option.splits if_splits)

lemma recorded_latency:
  assumes f: "frame cur s s1" and t: "tids s cur = Some t"
    and l: "track_rw_latency K s1 name ev cur = Inr s2"
  shows "recorded s s2 (completed (p_current_syscall t) ev) \<and>
     (\<exists>p rq. tids s2 cur = Some p \<and> cs_iorequest (p_current_syscall p) = Some rq \<and>
         completed (p_current_syscall t) ev rq)"
proof -
  from frame_start [OF f t] obtain t1 where
    t1: "tids s1 cur = Some t1" "cs_start (p_current_syscall t1) = cs_start (p_current_syscall t)"
    by blast
  from track_rw_latency_records [OF l t1(1)] obtain rq where
    rq: "completed (p_current_syscall t1) ev rq"
      "\<forall>a. set (f_iorequests (heap s2 a)) \<subseteq> insert rq (set (f_iorequests (heap s1 a)))"
      "\<forall>k p'. tids s2 k = Some p' \<longrightarrow> (\<exists>p. tids s1 k = Some p \<and> p_iorequests p' = p_iorequests p)"
      "\<exists>p'. tids s2 cur = Some p' \<and> cs_iorequest (p_current_syscall p') = Some rq"
    by blast
  have c: "completed (p_current_syscall t) ev rq"
    using rq(1) completed_cong [OF t1(2)] by simp
  have "recorded s1 s2 (completed (p_current_syscall t) ev)"
    unfolding recorded_def
  proof (intro conjI allI impI)
    fix a r assume "r \<in> set (f_iorequests (heap s2 a))"
    with rq(2) have "r = rq \<or> r \<in> set (f_iorequests (heap s1 a))" by blast
    with c show "r \<in> set (f_iorequests (heap s1 a)) \<or> completed (p_current_syscall t) ev r"
      by blast
  next
    fix k p' r assume "tids s2 k = Some p'" "r \<in> set (p_iorequests p')"
    with rq(3) show "(\<exists>p. tids s1 k = Some p \<and> r \<in> set (p_iorequests p)) \<or>
        completed (p_current_syscall t) ev r"
      by fastforce
  qed
  with f have "recorded s s2 (completed (p_current_syscall t) ev)"
    by (rule frame_then_recorded)
  with rq(4) c show ?thesis by blast
qed

lemma exit_finish_lists:
  assumes "exit_finish cur s = Inr s'"
  shows "heap s' = heap s"
    and "tids s' k = Some p' \<Longrightarrow> \<exists>p. tids s k = Some p \<and> p_iorequests p' = p_iorequests p"
  using assms
  by (auto simp: exit_finish_def Let_def ebind_Inr_iff upd_cs_def upd_proc_def
      split: option.splits if_splits)

lemma recorded_exit_finish:
  assumes "recorded s s1 P" and "exit_finish cur s1 = Inr s'"
  shows "recorded s s' P"
  unfolding recorded_def
proof (intro conjI allI impI)
  fix a rq assume "rq \<in> set (f_iorequests (heap s' a))"
  with assms show "rq \<in> set (f_iorequests (heap s a)) \<or> P rq"
    by (simp add: exit_finish_lists(1) recorded_def)
next
  fix k p' rq assume "tids s' k = Some p'" "rq \<in> set (p_iorequests p')"
  with exit_finish_lists(2) [OF assms(2)] obtain p1 where
    "tids s1 k = Some p1" "rq \<in> set (p_iorequests p1)" by fastforce
  with assms(1) show "(\<exists>p. tids s k = Some p \<and> rq \<in> set (p_iorequests p)) \<or> P rq"
    unfolding recorded_def by blast
qed

lemma recorded_append:
  assumes "recorded s s1 P" and "P rq"
  shows "recorded s (upd_proc s1 k (\<lambda>p. p\<lparr>p_iorequests := p_iorequests p @ [rq]\<rparr>)) P"
  unfolding recorded_def
proof (intro conjI allI impI)
  fix a r assume "r \<in> set (f_iorequests (heap (upd_proc s1 k (\<lambda>p. p\<lparr>p_iorequests := p_iorequests p @ [rq]\<rparr>)) a))"
  with assms show "r \<in> set (f_iorequests (heap s a)) \<or> P r"
    by (simp add: heap_upd_proc recorded_def)
next
  fix j p' r
  assume a: "tids (upd_proc s1 k (\<lambda>p. p\<lparr>p_iorequests := p_iorequests p @ [rq]\<rparr>)) j = Some p'"
    "r \<in> set (p_iorequests p')"
  then have "r = rq \<or> (\<exists>p1. tids s1 j = Some p1 \<and> r \<in> set (p_iorequests p1))"
    by (auto simp: upd_proc_def split: option.splits if_splits)
  with assms show "(\<exists>p. tids s j = Some p \<and> r \<in> set (p_iorequests p)) \<or> P r"
    unfolding recorded_def by blast
qed

section \<open>Properties of the disk table\<close>

lemma get_disk_unknown: "disks dev = None \<Longrightarrow> get_disk dev disks = Inl AttributeError"
  by (simp add: get_disk_def setattr_int_def)

text \<open>
  C1 (the code departs from the claim). Looking up a device id that the table does not
  hold raises AttributeError: for the device 8388608 and the empty table neither
  \<open>get_disk\<close> nor the block-device statedump handler returns a disk, whereas the older
  \<open>get_disk\<close> of the repository materialises the disk \<open>(8,0)\<close>, stores it and returns it,
  and returns the same entity at the second lookup.
\<close>

theorem get_disk_unknown_device_raises:
  "get_disk 8388608 Map.empty = Inl AttributeError \<and>
   process_lttng_statedump_block_device Map.empty 8388608 ''sda'' = Inl AttributeError \<and>
   (case old_get_disk 8388608 Map.empty of
      Inl e \<Rightarrow> False
    | Inr (d, disks') \<Rightarrow> d_prettyname d = ''(8,0)'' \<and> disks' 8388608 = Some d \<and>
        old_get_disk 8388608 disks' = Inr (d, disks'))"
  by (simp add: get_disk_def setattr_int_def process_lttng_statedump_block_device_def
      old_get_disk_def Disk_new_def kdev_major_minor_def show_int_def digit_def Let_def)

section \<open>Properties of the interrupt correlator\<close>

lemma raise_soft_exit: "raise_per_cpu (soft_exit s x args) = raise_per_cpu s"
  by (auto simp: soft_exit_def exit_def per_cpu_set_def irqs_set_def Let_def split: option.splits irq_kind.splits)

lemma slot_step: "slot (soft_step args s ev) c = pending_step c (slot s c) ev"
  apply (cases ev)
    apply (auto simp: slot_def soft_raise_def soft_entry_def alloc_def Let_def raise_soft_exit split: option.splits)
  done

lemma slot_run: "slot (soft_run args s evs) c = foldl (pending_step c) (slot s c) evs"
  unfolding soft_run_def
  by (induction evs arbitrary: s) (simp_all add: slot_step)

lemma slot_init: "slot Interrupt_init c = None"
  by (simp add: slot_def Interrupt_init_def)

lemma slot_reachable: "slot (soft_run args Interrupt_init evs) c = pending_raise evs c"
  by (simp add: slot_run slot_init pending_raise_def)

lemma pending_ts:
  "\<forall>r. Raise r \<in> set evs \<longrightarrow> ev_ts r \<noteq> -1 \<Longrightarrow> (case p of Some (t, v) \<Rightarrow> t \<noteq> -1 | None \<Rightarrow> True) \<Longrightarrow>
   foldl (pending_step c) p evs = Some (rts, v) \<Longrightarrow> rts \<noteq> -1"
proof (induction evs arbitrary: p)
  case Nil
  then show ?case by simp
next
  case (Cons ev evs)
  have "case pending_step c p ev of Some (t, v) \<Rightarrow> t \<noteq> -1 | None \<Rightarrow> True"
    using Cons.prems(1,2) by (cases ev) (auto split: option.splits)
  with Cons show ?case by simp
qed


lemma soft_entry_eq:
  "soft_entry s e =
     s\<lparr>soft_count := soft_count s + 1,
       soft_per_cpu := (soft_per_cpu s)(ev_cpu e \<mapsto> Some (next_obj s)),
       raise_per_cpu := (if consumed s e then (raise_per_cpu s)(ev_cpu e \<mapsto> None) else raise_per_cpu s),
       objs := (objs s)(next_obj s := (entry e SOFT_IRQ)\<lparr>raise_ts :=
          (case slot s (ev_cpu e) of Some (rts, v) \<Rightarrow> if v = ev_id e then rts else -1 | None \<Rightarrow> -1)\<rparr>),
       next_obj := Suc (next_obj s)\<rparr>"
  by (cases "raise_per_cpu s (ev_cpu e)")
     (auto simp: soft_entry_def alloc_def Let_def slot_def consumed_def entry_def IRQ_new_def split: option.splits)

lemma exit_pass:
  assumes "per_cpu k s (ev_cpu x) = Some (Some a)" "nr (objs s a) = ev_id x"
    "filter_passes args (ev_ts x - start_ts (objs s a))"
  shows "irq_of k (fst (exit s x k args)) (ev_id x) =
     compute_stats ((irq_of k s (ev_id x))\<lparr>e_list := e_list (irq_of k s (ev_id x)) @ [a]\<rparr>)
       ((objs s a)\<lparr>stop_ts := ev_ts x\<rparr>)"
  using assms
  by (cases k) (auto simp: exit_def Let_def filter_passes_def irqs_def irqs_set_def irq_of_def per_cpu_def)

lemma compute_stats_raise:
  "e_raise_count (compute_stats en i) = e_raise_count en + (if raise_ts i = -1 then 0 else 1)"
  "e_raise_total (compute_stats en i) = e_raise_total en + (if raise_ts i = -1 then 0 else start_ts i - raise_ts i)"
  by (simp_all add: compute_stats_def Let_def)

text \<open>
  C6 (amended). Take any run of soft-interrupt events from the initial state, followed by
  an entry and its matching exit (same CPU, same vector, duration inside the filter). The
  vector's aggregate gains one raise-latency sample, of the entry's timestamp minus the
  raise's, exactly when the pending raise of that CPU, which is the most recent raise
  event on the CPU unless an entry for its vector has used it, is for the entry's vector;
  otherwise the raise counters are unchanged. For raise(3) at 50, entry(3) at 60, exit(3)
  at 90 on CPU 0 without a filter the aggregate of vector 3 ends with raise_total 10,
  count 1 and total 30.
\<close>

theorem soft_raise_latency_recorded:
  assumes "ev_cpu x = ev_cpu e" and "ev_id x = ev_id e"
    and "filter_passes args (ev_ts x - ev_ts e)"
    and "\<forall>r. Raise r \<in> set evs \<longrightarrow> ev_ts r \<noteq> -1"
  shows "(let s = soft_run args Interrupt_init evs;
            s' = soft_run args s [Entry e, Exit x];
            old = irq_of Soft s (ev_id e);
            new = irq_of Soft s' (ev_id e)
        in case pending_raise evs (ev_cpu e) of
             Some (rts, v) \<Rightarrow>
               if v = ev_id e
               then e_raise_count new = e_raise_count old + 1 \<and>
                    e_raise_total new = e_raise_total old + (ev_ts e - rts)
               else e_raise_count new = e_raise_count old \<and>
                    e_raise_total new = e_raise_total old
           | None \<Rightarrow> e_raise_count new = e_raise_count old \<and>
                    e_raise_total new = e_raise_total old)
     \<and> (let s = soft_run no_filter Interrupt_init
                 [Raise (soft_event 50 0 3), Entry (soft_event 60 0 3), Exit (soft_event 90 0 3)];
            a = irq_of Soft s 3
        in e_raise_total a = 10 \<and> e_count a = 1 \<and> e_total a = 30)"
proof -
  let ?s = "soft_run args Interrupt_init evs"
  let ?s1 = "soft_entry ?s e"
  let ?new = "irq_of Soft (soft_exit ?s1 x args) (ev_id e)"
  let ?old = "irq_of Soft ?s (ev_id e)"
  have run2: "soft_run args s [Entry e, Exit x] = soft_exit (soft_entry s e) x args" for s
    by (simp add: soft_run_def)
  have sl: "slot ?s (ev_cpu e) = pending_raise evs (ev_cpu e)"
    by (simp add: slot_reachable)
  have cur: "per_cpu Soft ?s1 (ev_cpu x) = Some (Some (next_obj ?s))"
    by (simp add: soft_entry_eq per_cpu_def assms(1))
  have obj: "objs ?s1 (next_obj ?s) = (entry e SOFT_IRQ)\<lparr>raise_ts :=
          (case slot ?s (ev_cpu e) of Some (rts, v) \<Rightarrow> if v = ev_id e then rts else -1 | None \<Rightarrow> -1)\<rparr>"
    by (simp add: soft_entry_eq)
  have old: "irq_of Soft ?s1 (ev_id e) = ?old"
    by (simp add: soft_entry_eq irq_of_def irqs_def)
  have new: "?new =
     compute_stats (?old\<lparr>e_list := e_list ?old @ [next_obj ?s]\<rparr>)
       ((objs ?s1 (next_obj ?s))\<lparr>stop_ts := ev_ts x\<rparr>)"
    using exit_pass [OF cur, of args] assms(2,3) old
    by (simp add: soft_exit_def obj entry_def)
  have nz: "rts \<noteq> -1" if "pending_raise evs (ev_cpu e) = Some (rts, v)" for rts v
    using pending_ts [OF assms(4), of None "ev_cpu e" rts v] that
    by (simp add: pending_raise_def)
  have general: "(case pending_raise evs (ev_cpu e) of
             Some (rts, v) \<Rightarrow>
               if v = ev_id e
               then e_raise_count ?new = e_raise_count ?old + 1 \<and>
                    e_raise_total ?new = e_raise_total ?old + (ev_ts e - rts)
               else e_raise_count ?new = e_raise_count ?old \<and>
                    e_raise_total ?new = e_raise_total ?old
           | None \<Rightarrow> e_raise_count ?new = e_raise_count ?old \<and>
                    e_raise_total ?new = e_raise_total ?old)"
    using nz by (auto simp: new obj sl compute_stats_raise entry_def split: option.splits)
  have scen: "(let s = soft_run no_filter Interrupt_init
                 [Raise (soft_event 50 0 3), Entry (soft_event 60 0 3), Exit (soft_event 90 0 3)];
            a = irq_of Soft s 3
        in e_raise_total a = 10 \<and> e_count a = 1 \<and> e_total a = 30)"
    by (simp add: soft_run_def soft_raise_def soft_entry_def soft_exit_def exit_def alloc_def Let_def
     soft_event_def no_filter_def Interrupt_init_def entry_def IRQ_new_def truthy_def per_cpu_def
     irqs_def irqs_set_def irq_of_def init_irq_def compute_stats_def SOFT_IRQ_def)
  show ?thesis
    unfolding Let_def run2 using general scen [unfolded Let_def] by (rule conjI)
qed

text \<open>
  The hypotheses of C6 hold for raise(3) at 50, entry(3) at 60 and exit(3) at 90 on CPU 0.
\<close>

theorem soft_raise_latency_recorded_witness:
  "(let evs = [Raise (soft_event 50 0 3)]; e = soft_event 60 0 3; x = soft_event 90 0 3;
        s = soft_run no_filter Interrupt_init evs;
        s' = soft_run no_filter s [Entry e, Exit x]
    in pending_raise evs 0 = Some (50, 3) \<and>
       e_raise_count (irq_of Soft s' 3) = e_raise_count (irq_of Soft s 3) + 1 \<and>
       e_raise_total (irq_of Soft s' 3) = e_raise_total (irq_of Soft s 3) + 10)"
proof -
  have h1: "ev_cpu (soft_event 90 0 3) = ev_cpu (soft_event 60 0 3)" by (simp add: soft_event_def)
  have h2: "ev_id (soft_event 90 0 3) = ev_id (soft_event 60 0 3)" by (simp add: soft_event_def)
  have h3: "filter_passes no_filter (ev_ts (soft_event 90 0 3) - ev_ts (soft_event 60 0 3))"
    by (simp add: filter_passes_def no_filter_def truthy_def)
  have h4: "\<forall>r. Raise r \<in> set [Raise (soft_event 50 0 3)] \<longrightarrow> ev_ts r \<noteq> -1"
    by (simp add: soft_event_def)
  have p: "pending_raise [Raise (soft_event 50 0 3)] 0 = Some (50, 3)"
    by (simp add: pending_raise_def soft_event_def)
  show ?thesis
    using soft_raise_latency_recorded [OF h1 h2 h3 h4] p
    by (simp add: Let_def soft_event_def)
qed

text \<open>
  C6 as stated fails: after raise(3) at 50 and raise(5) at 55 on CPU 0, a raise for
  vector 3 precedes entry(3) at 60 with no entry for vector 3 in between, yet the exit at
  90 records the interrupt without any raise-latency sample, because the second raise
  has replaced the first in the CPU's only slot.
\<close>

theorem soft_raise_overwritten_counterexample:
  "spec_raise_preceded [Raise (soft_event 50 0 3), Raise (soft_event 55 0 5)] 0 3 \<and>
   e_raise_count (irq_of Soft (soft_run no_filter Interrupt_init
      [Raise (soft_event 50 0 3), Raise (soft_event 55 0 5),
       Entry (soft_event 60 0 3), Exit (soft_event 90 0 3)]) 3) = 0 \<and>
   e_count (irq_of Soft (soft_run no_filter Interrupt_init
      [Raise (soft_event 50 0 3), Raise (soft_event 55 0 5),
       Entry (soft_event 60 0 3), Exit (soft_event 90 0 3)]) 3) = 1"
  by (simp add: soft_run_def soft_raise_def soft_entry_def soft_exit_def exit_def alloc_def Let_def
     soft_event_def no_filter_def Interrupt_init_def entry_def IRQ_new_def truthy_def per_cpu_def
     irqs_def irqs_set_def irq_of_def init_irq_def compute_stats_def SOFT_IRQ_def)

text \<open>
  C7 (amended). An exit whose id matches the in-flight record of its CPU and whose
  duration is outside the minimum/maximum filter records no sample: the result is
  \<open>False\<close>, the aggregate of every line reads as before (a line without aggregate gets a
  zeroed one), the global list is unchanged; the per-CPU slot is not cleared but still
  holds the record, whose stop timestamp is now the exit's timestamp.
\<close>

theorem exit_filtered_keeps_slot:
  assumes "per_cpu k s (ev_cpu x) = Some (Some a)" and "nr (objs s a) = ev_id x"
    and "\<not> filter_passes args (ev_ts x - start_ts (objs s a))"
  shows "snd (exit s x k args) = RFalse \<and>
     per_cpu k (fst (exit s x k args)) = per_cpu k s \<and>
     objs (fst (exit s x k args)) = (objs s)(a := (objs s a)\<lparr>stop_ts := ev_ts x\<rparr>) \<and>
     (\<forall>n. irq_of k (fst (exit s x k args)) n = irq_of k s n) \<and>
     (\<forall>n. n \<noteq> ev_id x \<longrightarrow> irqs k (fst (exit s x k args)) n = irqs k s n) \<and>
     irq_list (fst (exit s x k args)) = irq_list s"
  using assms
  by (cases k) (auto simp: exit_def Let_def filter_passes_def irqs_def irqs_set_def irq_of_def per_cpu_def)

text \<open>
  The hypotheses of C7 hold for entry(3) at 60 and exit(3) at 5060 on CPU 0 under a
  maximum of one microsecond.
\<close>

theorem exit_filtered_keeps_slot_witness:
  "(let s = soft_entry Interrupt_init (soft_event 60 0 3);
        r = exit s (soft_event 5060 0 3) Soft \<lparr>flt_max = Some 1, flt_min = None\<rparr>
    in per_cpu Soft s 0 = Some (Some 0) \<and> nr (objs s 0) = 3 \<and>
       \<not> filter_passes \<lparr>flt_max = Some 1, flt_min = None\<rparr> (5060 - start_ts (objs s 0)) \<and>
       snd r = RFalse \<and> per_cpu Soft (fst r) = per_cpu Soft s \<and> irq_list (fst r) = irq_list s)"
proof -
  define s where "s = soft_entry Interrupt_init (soft_event 60 0 3)"
  have h1: "per_cpu Soft s (ev_cpu (soft_event 5060 0 3)) = Some (Some 0)"
    by (simp add: s_def soft_entry_def alloc_def Let_def soft_event_def Interrupt_init_def per_cpu_def)
  have o: "objs s 0 = (entry (soft_event 60 0 3) SOFT_IRQ)"
    by (simp add: s_def soft_entry_def alloc_def Let_def soft_event_def Interrupt_init_def)
  have h2: "nr (objs s 0) = ev_id (soft_event 5060 0 3)"
    by (simp add: o entry_def soft_event_def)
  have h3: "\<not> filter_passes \<lparr>flt_max = Some 1, flt_min = None\<rparr>
      (ev_ts (soft_event 5060 0 3) - start_ts (objs s 0))"
    by (simp add: o entry_def soft_event_def filter_passes_def truthy_def)
  show ?thesis
    unfolding Let_def s_def [symmetric]
    using exit_filtered_keeps_slot [OF h1 h2 h3] h1 h2 h3
    by (simp add: soft_event_def)
qed

text \<open>
  C7 as stated fails: for entry(3) at 60 and exit(3) at 5060 on CPU 0 with a maximum of
  one microsecond the duration is outside the filter, and after the exit the slot of
  CPU 0 still holds the record.
\<close>

theorem exit_filtered_slot_counterexample:
  "(let s = soft_entry Interrupt_init (soft_event 60 0 3);
        s' = soft_exit s (soft_event 5060 0 3) \<lparr>flt_max = Some 1, flt_min = None\<rparr>
    in soft_per_cpu s 0 = Some (Some 0) \<and> nr (objs s 0) = 3 \<and>
       \<not> filter_passes \<lparr>flt_max = Some 1, flt_min = None\<rparr> (5060 - start_ts (objs s 0)) \<and>
       soft_per_cpu s' 0 = Some (Some 0))"
  by (simp add: soft_entry_def soft_exit_def exit_def alloc_def Let_def
     soft_event_def Interrupt_init_def entry_def IRQ_new_def truthy_def per_cpu_def
     irqs_def irqs_set_def filter_passes_def SOFT_IRQ_def)

section \<open>Properties of the descriptor tables\<close>






section \<open>Properties of the statedump reconciler\<close>

text \<open>
  C10 (amended). A file-descriptor statedump record for a process that already has a
  descriptor under the fd number replaces the descriptor's filename by the record's
  filename, whatever the filename was, leaves the cloexec flag (and every other
  descriptor) as it is, and stores an entry under the record's timestamp, with the
  record's filename and the descriptor's type, in the chronological history of that fd.
\<close>

theorem statedump_fd_existing:
  assumes "ev_ints ev ''pid'' = Some pid" and "ev_ints ev ''fd'' = Some fd"
    and "ev_strs ev ''filename'' = Some filename" and "ev_ints ev ''flags'' = Some flags"
    and "tids s pid = Some proc" and "map_of (p_fds proc) fd = Some a"
  shows "\<exists>s' proc'. process_lttng_statedump_file_descriptor s ev = Inr s' \<and>
      tids s' pid = Some proc' \<and> p_fds proc' = p_fds proc \<and>
      heap s' = (heap s)(a := (heap s a)\<lparr>f_filename := filename\<rparr>) \<and>
      f_filename (heap s' a) = filename \<and>
      f_cloexec (heap s' a) = f_cloexec (heap s a) \<and>
      p_chrono_fds proc' fd =
        Some (AList.update (ev_timestamp ev) (filename, f_fdtype (heap s a))
               (case p_chrono_fds proc fd of None \<Rightarrow> [] | Some l \<Rightarrow> l)) \<and>
      map_of (the (p_chrono_fds proc' fd)) (ev_timestamp ev) =
        Some (filename, f_fdtype (heap s a))"
  using assms
  by (simp add: process_lttng_statedump_file_descriptor_def ev_int_def ev_str_def lookup_Some
      Let_def tids_upd_proc tids_upd_fd heap_upd_fd heap_upd_proc track_chrono_fd_def
      update_conv')

text \<open>
  The hypotheses of C10 hold for process 1 with descriptor 5 of \<open>/tmp/a\<close> and a record
  naming \<open>/tmp/b\<close> with the close-on-exec flag.
\<close>

theorem statedump_fd_existing_witness:
  "\<exists>s' proc'. process_lttng_statedump_file_descriptor (two_fd_state ''/tmp/a'') fd_record = Inr s' \<and>
      tids s' 1 = Some proc' \<and> p_fds proc' = [(5, 0)] \<and>
      f_filename (heap s' 0) = ''/tmp/b'' \<and> f_cloexec (heap s' 0) = 0 \<and>
      map_of (the (p_chrono_fds proc' 5)) 20 = Some (''/tmp/b'', T_unknown)"
proof -
  let ?s = "two_fd_state ''/tmp/a''"
  let ?p = "(Process_new 0)\<lparr>p_tid := Some 1, p_pid := Some 1,
                    p_fds := [(5, 0)], p_closed_fds := [(''/tmp/a'', 1)]\<rparr>"
  have e: "ev_ints fd_record ''pid'' = Some 1" "ev_ints fd_record ''fd'' = Some 5"
    "ev_strs fd_record ''filename'' = Some ''/tmp/b''" "ev_ints fd_record ''flags'' = Some 524288"
    "ev_timestamp fd_record = 20"
    by (simp_all add: fd_record_def mk_event_def)
  have h1: "tids ?s 1 = Some ?p" by (simp add: two_fd_state_def state_init_def)
  have h2: "map_of (p_fds ?p) 5 = Some 0" by simp
  have hp: "heap ?s 0 = FD_new\<lparr>f_filename := ''/tmp/a'', f_fd := 5, f_net_read := 5, f_open := 1\<rparr>"
    by (simp add: two_fd_state_def state_init_def)
  show ?thesis
    using statedump_fd_existing [OF e(1-4) h1 h2]
    by (auto simp: e(5) hp FD_new_def)
qed

text \<open>
  C10 as stated fails: descriptor 5 of process 1 has the filename \<open>/tmp/a\<close> and no cloexec
  flag; after a record with filename \<open>/tmp/b\<close> and the close-on-exec flag the filename
  that was set has changed to \<open>/tmp/b\<close> and the flag that was unset is still unset.
\<close>

theorem statedump_fd_overwrites_counterexample:
  "f_filename (heap (two_fd_state ''/tmp/a'') 0) = ''/tmp/a'' \<and>
   f_cloexec (heap (two_fd_state ''/tmp/a'') 0) = 0 \<and>
   map_of (p_fds (the (tids (two_fd_state ''/tmp/a'') 1))) 5 = Some 0 \<and>
   (case process_lttng_statedump_file_descriptor (two_fd_state ''/tmp/a'') fd_record of
      Inl e \<Rightarrow> False
    | Inr s' \<Rightarrow> f_filename (heap s' 0) = ''/tmp/b'' \<and> f_cloexec (heap s' 0) = 0)"
  by (simp add: process_lttng_statedump_file_descriptor_def ev_int_def ev_str_def lookup_def
      Let_def fd_record_def mk_event_def two_fd_state_def state_init_def upd_proc_def
      upd_fd_def FD_new_def)

lemma merge_closed_fds_raises:
  "tids s ck = Some p \<Longrightarrow> p_closed_fds p \<noteq> [] \<Longrightarrow> \<exists>e. merge_closed_fds s ck pk = Inl e"
  by (cases "p_closed_fds p"; cases "lookup (tids s) pk")
     (auto simp: merge_closed_fds_def lookup_Some)

text \<open>
  C4 (the code departs from the claim). A process-state record with tid 2 and pid 1, for
  a thread whose closed table holds one descriptor, ends in RuntimeError: the loop over
  the closed table deletes from the dict it iterates. With an empty closed table the
  same record moves descriptor 5 into the open table of process 1 and empties the
  thread's open table, as the loop over the open table collects the keys first.
\<close>

theorem statedump_merge_closed_table_raises:
  "process_lttng_statedump_process_state (thread_state [(''/tmp/b'', 1)]) process_record
     = Inl RuntimeError \<and>
   (case process_lttng_statedump_process_state (thread_state []) process_record of
      Inl e \<Rightarrow> False
    | Inr s' \<Rightarrow> p_fds (the (tids s' 1)) = [(5, 0)] \<and> p_fds (the (tids s' 2)) = [] \<and>
        p_closed_fds (the (tids s' 2)) = [])"
  by (simp add: process_lttng_statedump_process_state_def ev_int_def ev_str_def lookup_def
      Let_def process_record_def mk_event_def thread_state_def state_init_def upd_proc_def
      upd_fd_def merge_fd_dict_def merge_closed_fds_def Process_new_def)

section \<open>Properties of the syscall exit handler\<close>

text \<open>
  C2 (amended). After a syscall-exit event that the handler processes for a thread with
  a non-empty in-flight record, the record is empty again when the name in the record
  is in the I/O catalog and the syscall is not an open-family syscall with a negative
  return value; for a name outside the I/O catalog the handler returns early and the
  record is what it was, and after a failed open the record is still non-empty. A thread
  has one record, so it never holds more than one in-flight syscall.
\<close>

theorem syscall_exit_returns_to_idle:
  assumes run: "process_syscall_exit K s ev = Inr s'"
    and cpu: "ev_ints ev ''cpu_id'' = Some cpu" "map_of (cpus s) cpu = Some (Some cur)"
    and thr: "tids s cur = Some t" "p_current_syscall t \<noteq> cs_empty"
      "cs_name (p_current_syscall t) = Some name"
    and r: "ev_ints ev ''ret'' = Some r"
  shows "\<exists>p. tids s' cur = Some p \<and>
     (if name \<notin> set (IO_SYSCALLS K) then p_current_syscall p = p_current_syscall t
      else if name \<in> set (OPEN_SYSCALLS K) \<and> r < 0 then p_current_syscall p \<noteq> cs_empty
      else p_current_syscall p = cs_empty)"
proof -
  from run cpu thr r obtain s1 where
    s1: "per_tid_syscall_exit s name r ev cur = Inr s1" and
    rest: "(if name \<notin> set (IO_SYSCALLS K) then Inr s1
      else
        (let s2 = set_rq s1 cur (IORequest_new\<lparr>rq_iotype := Some IO_SYSCALL, rq_name := Some name\<rparr>)
         in if name \<in> set (OPEN_SYSCALLS K) then
              ebind (add_tid_fd K s2 ev cur) (\<lambda>s3.
                if r < 0 then Inr s3
                else
                  ebind (get_fd s3 cur r ev) (\<lambda>(a, s4).
                    (let s5 = upd_cs s4 cur (\<lambda>cs. cs\<lparr>cs_fd := Some a, cs_count := Some (Some 0)\<rparr>)
                     in ebind (lookup (tids s5) cur) (\<lambda>t5.
                        ebind (key (cs_fdtype (p_current_syscall t5))) (\<lambda>fdt.
                        ebind (track_rw_latency K
                                 (set_operation (upd_fd s5 a (\<lambda>f. f\<lparr>f_fdtype := fdt\<rparr>)) cur OP_OPEN)
                                 name ev cur)
                          (exit_finish cur))))))
            else if name \<in> set (READ_SYSCALLS K) \<or> name \<in> set (WRITE_SYSCALLS K) then
              ebind (track_read_write_return K s2 name r cur) (\<lambda>s3.
              ebind (track_rw_latency K s3 name ev cur) (exit_finish cur))
            else if name \<in> set (SYNC_SYSCALLS K) then
              ebind (track_rw_latency K (set_operation s2 cur OP_SYNC) name ev cur) (\<lambda>s3.
                if name \<in> set [''sys_sync'', ''syscall_entry_sync''] then
                  ebind (lookup (tids s3) cur) (\<lambda>t3.
                  ebind (key (cs_iorequest (p_current_syscall t3))) (\<lambda>rq.
                    exit_finish cur
                      (upd_proc s3 cur (\<lambda>p. p\<lparr>p_iorequests := p_iorequests p @ [rq]\<rparr>))))
                else exit_finish cur s3)
            else exit_finish cur s2)) = Inr s'"
    by (auto simp: process_syscall_exit_def ev_int_def lookup_Some key_def ebind_Inr_iff)
  from per_tid_syscall_exit_cs [OF s1 thr(1)] obtain p1 where
    p1: "tids s1 cur = Some p1" "p_current_syscall p1 = p_current_syscall t" by blast
  show ?thesis
  proof (cases "name \<in> set (IO_SYSCALLS K)")
    case False
    with rest p1 show ?thesis by simp
  next
    case io: True
    let ?s2 = "set_rq s1 cur (IORequest_new\<lparr>rq_iotype := Some IO_SYSCALL, rq_name := Some name\<rparr>)"
    show ?thesis
    proof (cases "name \<in> set (OPEN_SYSCALLS K) \<and> r < 0")
      case True
      with rest io obtain s3 where a: "add_tid_fd K ?s2 ev cur = Inr s3" and e: "s' = s3"
        by (auto simp: Let_def ebind_Inr_iff)
      from add_tid_fd_failed [OF a r] True have "tids s3 = tids ?s2" by simp
      moreover from set_rq_cs [OF p1(1)] obtain q where
        "tids ?s2 cur = Some q" "cs_iorequest (p_current_syscall q) \<noteq> None" by fastforce
      ultimately show ?thesis
        using io True e by (auto simp: cs_empty_def)
    next
      case False
      with rest io have "\<exists>sx. exit_finish cur sx = Inr s'"
        by (auto simp: Let_def ebind_Inr_iff split: if_splits prod.splits)
      then show ?thesis
        using io False exit_finish_idle by fastforce
    qed
  qed
qed

text \<open>
  C3 (amended). When the exit handler processes an event for a thread, every request
  that a descriptor's or a process's list holds afterwards and did not hold before has
  the duration of the exit event's timestamp minus the start timestamp of the thread's
  in-flight record, begins at that start and ends at the exit's timestamp; the duration
  is non-negative exactly when the start is not later than the exit's timestamp, which
  the handler does not check. For a thread whose in-flight record is empty the state is
  unchanged: no request is produced and no duration is recorded anywhere.
\<close>

theorem syscall_exit_requests:
  assumes run: "process_syscall_exit K s ev = Inr s'"
    and cpu: "ev_ints ev ''cpu_id'' = Some cpu" "map_of (cpus s) cpu = Some (Some cur)"
    and thr: "tids s cur = Some t"
  shows "(p_current_syscall t = cs_empty \<longrightarrow> s' = s) \<and>
     recorded s s' (completed (p_current_syscall t) ev) \<and>
     (\<forall>rq. completed (p_current_syscall t) ev rq \<longrightarrow>
        (0 \<le> the (rq_duration rq)) = (the (cs_start (p_current_syscall t)) \<le> ev_timestamp ev))"
proof -
  let ?P = "completed (p_current_syscall t) ev"
  have sign: "\<forall>rq. ?P rq \<longrightarrow>
        (0 \<le> the (rq_duration rq)) = (the (cs_start (p_current_syscall t)) \<le> ev_timestamp ev)"
    by (auto simp: completed_def)
  have rec: "recorded s s' ?P \<and> (p_current_syscall t = cs_empty \<longrightarrow> s' = s)"
  proof (cases "p_current_syscall t = cs_empty")
    case True
    with run cpu thr have "s' = s"
      by (simp add: process_syscall_exit_def ev_int_def lookup_Some)
    then show ?thesis by (simp add: frame_recorded [OF frame_refl])
  next
    case ne: False
    from run cpu thr ne obtain name r s1 where
      s1: "per_tid_syscall_exit s name r ev cur = Inr s1" and
      rest: "(if name \<notin> set (IO_SYSCALLS K) then Inr s1
        else
          (let s2 = set_rq s1 cur (IORequest_new\<lparr>rq_iotype := Some IO_SYSCALL, rq_name := Some name\<rparr>)
           in if name \<in> set (OPEN_SYSCALLS K) then
                ebind (add_tid_fd K s2 ev cur) (\<lambda>s3.
                  if r < 0 then Inr s3
                  else
                    ebind (get_fd s3 cur r ev) (\<lambda>(a, s4).
                      (let s5 = upd_cs s4 cur (\<lambda>cs. cs\<lparr>cs_fd := Some a, cs_count := Some (Some 0)\<rparr>)
                       in ebind (lookup (tids s5) cur) (\<lambda>t5.
                          ebind (key (cs_fdtype (p_current_syscall t5))) (\<lambda>fdt.
                          ebind (track_rw_latency K
                                   (set_operation (upd_fd s5 a (\<lambda>f. f\<lparr>f_fdtype := fdt\<rparr>)) cur OP_OPEN)
                                   name ev cur)
                            (exit_finish cur))))))
              else if name \<in> set (READ_SYSCALLS K) \<or> name \<in> set (WRITE_SYSCALLS K) then
                ebind (track_read_write_return K s2 name r cur) (\<lambda>s3.
                ebind (track_rw_latency K s3 name ev cur) (exit_finish cur))
              else if name \<in> set (SYNC_SYSCALLS K) then
                ebind (track_rw_latency K (set_operation s2 cur OP_SYNC) name ev cur) (\<lambda>s3.
                  if name \<in> set [''sys_sync'', ''syscall_entry_sync''] then
                    ebind (lookup (tids s3) cur) (\<lambda>t3.
                    ebind (key (cs_iorequest (p_current_syscall t3))) (\<lambda>rq.
                      exit_finish cur
                        (upd_proc s3 cur (\<lambda>p. p\<lparr>p_iorequests := p_iorequests p @ [rq]\<rparr>))))
                  else exit_finish cur s3)
              else exit_finish cur s2)) = Inr s'"
      by (auto simp: process_syscall_exit_def ev_int_def lookup_Some ebind_Inr_iff)
    let ?s2 = "set_rq s1 cur (IORequest_new\<lparr>rq_iotype := Some IO_SYSCALL, rq_name := Some name\<rparr>)"
    have f1: "frame cur s s1" by (rule frame_per_tid_syscall_exit [OF s1])
    have f2: "frame cur s ?s2" by (rule frame_set_rq [OF f1])
    have "recorded s s' ?P"
    proof (cases "name \<in> set (IO_SYSCALLS K)")
      case False
      with rest f1 show ?thesis by (simp add: frame_recorded)
    next
      case io: True
      consider (opn) "name \<in> set (OPEN_SYSCALLS K)"
        | (rw) "name \<notin> set (OPEN_SYSCALLS K)"
               "name \<in> set (READ_SYSCALLS K) \<or> name \<in> set (WRITE_SYSCALLS K)"
        | (sync) "name \<notin> set (OPEN_SYSCALLS K)"
               "\<not> (name \<in> set (READ_SYSCALLS K) \<or> name \<in> set (WRITE_SYSCALLS K))"
               "name \<in> set (SYNC_SYSCALLS K)"
        | (other) "name \<notin> set (OPEN_SYSCALLS K)"
               "\<not> (name \<in> set (READ_SYSCALLS K) \<or> name \<in> set (WRITE_SYSCALLS K))"
               "name \<notin> set (SYNC_SYSCALLS K)"
        by blast
      then show ?thesis
      proof cases
        case opn
        with rest io obtain s3 where a: "add_tid_fd K ?s2 ev cur = Inr s3"
          and r3: "(if r < 0 then Inr s3
                  else
                    ebind (get_fd s3 cur r ev) (\<lambda>(a, s4).
                      (let s5 = upd_cs s4 cur (\<lambda>cs. cs\<lparr>cs_fd := Some a, cs_count := Some (Some 0)\<rparr>)
                       in ebind (lookup (tids s5) cur) (\<lambda>t5.
                          ebind (key (cs_fdtype (p_current_syscall t5))) (\<lambda>fdt.
                          ebind (track_rw_latency K
                                   (set_operation (upd_fd s5 a (\<lambda>f. f\<lparr>f_fdtype := fdt\<rparr>)) cur OP_OPEN)
                                   name ev cur)
                            (exit_finish cur)))))) = Inr s'"
          by (auto simp: Let_def ebind_Inr_iff)
        have f3: "frame cur s s3" by (rule frame_trans [OF f2 frame_add_tid_fd [OF a]])
        show ?thesis
        proof (cases "r < 0")
          case True
          with r3 f3 show ?thesis by (simp add: frame_recorded)
        next
          case False
          with r3 obtain a4 s4 fdt sl where g: "get_fd s3 cur r ev = Inr (a4, s4)"
            and l: "track_rw_latency K
                   (set_operation (upd_fd (upd_cs s4 cur
                       (\<lambda>cs. cs\<lparr>cs_fd := Some a4, cs_count := Some (Some 0)\<rparr>)) a4
                       (\<lambda>f. f\<lparr>f_fdtype := fdt\<rparr>)) cur OP_OPEN) name ev cur = Inr sl"
            and e: "exit_finish cur sl = Inr s'"
            by (auto simp: Let_def ebind_Inr_iff)
          have f4: "frame cur s s4" by (rule frame_trans [OF f3 frame_get_fd [OF g]])
          have "frame cur s (set_operation (upd_fd (upd_cs s4 cur
                       (\<lambda>cs. cs\<lparr>cs_fd := Some a4, cs_count := Some (Some 0)\<rparr>)) a4
                       (\<lambda>f. f\<lparr>f_fdtype := fdt\<rparr>)) cur OP_OPEN)"
            by (intro frame_set_operation frame_upd_fd frame_upd_cs f4) simp_all
          from recorded_latency [OF this thr l] e show ?thesis
            by (blast intro: recorded_exit_finish)
        qed
      next
        case rw
        with rest io obtain s3 sl where a: "track_read_write_return K ?s2 name r cur = Inr s3"
          and l: "track_rw_latency K s3 name ev cur = Inr sl" and e: "exit_finish cur sl = Inr s'"
          by (auto simp: Let_def ebind_Inr_iff)
        have "frame cur s s3" by (rule frame_trans [OF f2 frame_track_read_write_return [OF a]])
        from recorded_latency [OF this thr l] e show ?thesis
          by (blast intro: recorded_exit_finish)
      next
        case sync
        with rest io obtain s3 where
          l: "track_rw_latency K (set_operation ?s2 cur OP_SYNC) name ev cur = Inr s3"
          and r3: "(if name \<in> set [''sys_sync'', ''syscall_entry_sync''] then
                    ebind (lookup (tids s3) cur) (\<lambda>t3.
                    ebind (key (cs_iorequest (p_current_syscall t3))) (\<lambda>rq.
                      exit_finish cur
                        (upd_proc s3 cur (\<lambda>p. p\<lparr>p_iorequests := p_iorequests p @ [rq]\<rparr>))))
                  else exit_finish cur s3) = Inr s'"
          by (auto simp: Let_def ebind_Inr_iff)
        have "frame cur s (set_operation ?s2 cur OP_SYNC)"
          by (rule frame_set_operation [OF f2])
        from recorded_latency [OF this thr l] obtain p rq where
          rc: "recorded s s3 ?P" and p: "tids s3 cur = Some p"
            "cs_iorequest (p_current_syscall p) = Some rq" "?P rq"
          by blast
        show ?thesis
        proof (cases "name \<in> set [''sys_sync'', ''syscall_entry_sync'']")
          case True
          with r3 p have "exit_finish cur
                (upd_proc s3 cur (\<lambda>p. p\<lparr>p_iorequests := p_iorequests p @ [rq]\<rparr>)) = Inr s'"
            by (auto simp: ebind_Inr_iff lookup_Inr_iff key_Inr_iff)
          with recorded_append [OF rc p(3)] show ?thesis
            by (blast intro: recorded_exit_finish)
        next
          case False
          with r3 rc show ?thesis by (auto intro: recorded_exit_finish)
        qed
      next
        case other
        with rest io have "exit_finish cur ?s2 = Inr s'" by (simp add: Let_def)
        with frame_recorded [OF f2] show ?thesis by (blast intro: recorded_exit_finish)
      qed
    qed
    with ne show ?thesis by simp
  qed
  with sign show ?thesis by blast
qed

section \<open>The handlers on concrete event sequences\<close>

lemmas sys_defs = process_syscall_entry_def process_syscall_exit_def per_tid_syscall_entry_def
  track_fds_def track_open_def track_open_tail_def track_close_def close_fd_def fix_context_pid_def
  get_fd_def track_sync_def track_read_write_def add_tid_fd_def add_tid_fd_object_def
  add_tid_fd_store_def read_append_def write_append_def
  set_rq_def track_read_write_return_def track_rw_latency_def per_tid_syscall_exit_def
  exit_finish_def set_operation_def global_syscall_entry_def override_name_def get_fd_type_def
  track_chrono_fd_def parent_key_def key_def lookup_def ev_int_def ev_str_def ev_has_def
  upd_proc_def upd_cs_def upd_fd_def alloc_fd_def

lemmas example_defs = SyscallConsts_def scenario_state_def state_init_def inflight_state_def
  open_entry_def open_exit_def read_entry_def read_exit_def exit_event_def entry_event_def
  mk_event_def Let_def Process_new_def cs_empty_def AF_UNSPEC_def O_CLOEXEC_def
  IORequest_new_def FD_new_def Syscall_new_def OP_READ_def OP_OPEN_def OP_SYNC_def
  IO_SYSCALL_def

lemma sync_exit_eval:
  "\<exists>s' p rq. process_syscall_exit SyscallConsts (inflight_state ''syscall_entry_sync'')
       (exit_event 105 0) = Inr s' \<and>
     tids s' 42 = Some p \<and> p_iorequests p = [rq]"
  by (simp add: sys_defs example_defs)

lemma inflight_facts:
  "ev_ints (exit_event t r) ''cpu_id'' = Some 0"
  "ev_ints (exit_event t r) ''ret'' = Some r"
  "ev_timestamp (exit_event t r) = t"
  "map_of (cpus (inflight_state n)) 0 = Some (Some 42)"
  "tids (inflight_state n) 42 = Some ((Process_new 0)\<lparr>p_tid := Some 42, p_pid := Some 42,
        p_current_syscall := cs_empty\<lparr>cs_name := Some n, cs_start := Some 100\<rparr>\<rparr>)"
  by (simp_all add: exit_event_def mk_event_def inflight_state_def scenario_state_def state_init_def)

text \<open>
  The hypotheses of C2 hold for thread 42 in a \<open>sync\<close> since time 100 and an exit at 105:
  the handler returns and the record is empty afterwards.
\<close>

theorem syscall_exit_returns_to_idle_witness:
  "\<exists>s' p. process_syscall_exit SyscallConsts (inflight_state ''syscall_entry_sync'')
       (exit_event 105 0) = Inr s' \<and>
     tids s' 42 = Some p \<and> p_current_syscall p = cs_empty"
proof -
  let ?t = "(Process_new 0)\<lparr>p_tid := Some 42, p_pid := Some 42,
        p_current_syscall := cs_empty\<lparr>cs_name := Some ''syscall_entry_sync'', cs_start := Some 100\<rparr>\<rparr>"
  from sync_exit_eval obtain s' where
    run: "process_syscall_exit SyscallConsts (inflight_state ''syscall_entry_sync'')
       (exit_event 105 0) = Inr s'" by blast
  have ne: "p_current_syscall ?t \<noteq> cs_empty" by (simp add: cs_empty_def)
  have nm: "cs_name (p_current_syscall ?t) = Some ''syscall_entry_sync''" by simp
  have io: "''syscall_entry_sync'' \<in> set (IO_SYSCALLS SyscallConsts)"
    "''syscall_entry_sync'' \<notin> set (OPEN_SYSCALLS SyscallConsts)"
    by (simp_all add: SyscallConsts_def Let_def)
  from syscall_exit_returns_to_idle [OF run inflight_facts(1) inflight_facts(4)
      inflight_facts(5) ne nm inflight_facts(2)] io run
  show ?thesis by auto
qed

text \<open>
  C2 as stated fails: after the entry of \<open>getpid\<close>, a syscall outside the I/O catalog, the
  in-flight record of thread 42 is not empty, and it is still not empty after the
  handler has processed the exit.
\<close>

theorem syscall_exit_non_io_counterexample:
  "(case sys_run SyscallConsts scenario_state [SyscallEntry (entry_event ''syscall_entry_getpid'' 100)] of
      Inl e \<Rightarrow> False
    | Inr s1 \<Rightarrow>
        p_current_syscall (the (tids s1 42)) \<noteq> cs_empty \<and>
        (case process_syscall_exit SyscallConsts s1 (exit_event 105 1234) of
           Inl e \<Rightarrow> False
         | Inr s2 \<Rightarrow> p_current_syscall (the (tids s2 42)) \<noteq> cs_empty \<and>
             cs_name (p_current_syscall (the (tids s2 42))) = Some ''syscall_entry_getpid''))"
  by (simp add: sys_defs example_defs)

text \<open>
  The hypotheses of C3 hold for thread 42 in a \<open>sync\<close> since time 100 and an exit at 105:
  the one request recorded has duration 5, from 100 to 105.
\<close>

theorem syscall_exit_requests_witness:
  "\<exists>s' p rq. process_syscall_exit SyscallConsts (inflight_state ''syscall_entry_sync'')
       (exit_event 105 0) = Inr s' \<and>
     tids s' 42 = Some p \<and> p_iorequests p = [rq] \<and> rq_duration rq = Some 5 \<and>
     rq_begin rq = Some 100 \<and> rq_end rq = Some 105"
proof -
  let ?t = "(Process_new 0)\<lparr>p_tid := Some 42, p_pid := Some 42,
        p_current_syscall := cs_empty\<lparr>cs_name := Some ''syscall_entry_sync'', cs_start := Some 100\<rparr>\<rparr>"
  from sync_exit_eval obtain s' p rq where
    run: "process_syscall_exit SyscallConsts (inflight_state ''syscall_entry_sync'')
       (exit_event 105 0) = Inr s'" and p: "tids s' 42 = Some p" "p_iorequests p = [rq]"
    by blast
  from syscall_exit_requests [OF run inflight_facts(1) inflight_facts(4) inflight_facts(5)]
  have "recorded (inflight_state ''syscall_entry_sync'') s'
      (completed (p_current_syscall ?t) (exit_event 105 0))" by blast
  with p have "(\<exists>p0. tids (inflight_state ''syscall_entry_sync'') 42 = Some p0 \<and>
        rq \<in> set (p_iorequests p0)) \<or> completed (p_current_syscall ?t) (exit_event 105 0) rq"
    unfolding recorded_def by (metis list.set_intros(1))
  then have "completed (p_current_syscall ?t) (exit_event 105 0) rq"
    by (simp add: inflight_facts(5) Process_new_def)
  then have "rq_duration rq = Some 5 \<and> rq_begin rq = Some 100 \<and> rq_end rq = Some 105"
    by (simp add: completed_def inflight_facts(3))
  with run p show ?thesis by blast
qed

text \<open>
  C3 as stated fails. Thread 42 enters \<open>sync\<close> on CPU 0, the event carries the timestamp
  100; the scheduler moves the thread to CPU 1; the exit arrives on CPU 1 with the
  timestamp 90. Each CPU's timestamps are in order (one event each), the two CPUs are
  not in timestamp order with each other. The request recorded has the duration -10.
\<close>

theorem syscall_exit_negative_duration_counterexample:
  "ev_ints (entry_event ''syscall_entry_sync'' 100) ''cpu_id'' = Some 0 \<and>
   ev_ints (exit_event_on 1 90 0) ''cpu_id'' = Some 1 \<and>
   (case process_syscall_entry SyscallConsts two_cpu_state
           (entry_event ''syscall_entry_sync'' 100) of
      Inl e \<Rightarrow> False
    | Inr s1 \<Rightarrow>
        cs_start (p_current_syscall (the (tids s1 42))) = Some 100 \<and>
        (case process_syscall_exit SyscallConsts
                (set_current (set_current s1 0 None) 1 (Some 42)) (exit_event_on 1 90 0) of
           Inl e \<Rightarrow> False
         | Inr s' \<Rightarrow> map rq_duration (p_iorequests (the (tids s' 42))) = [Some (- 10)]))"
  by (simp add: sys_defs example_defs two_cpu_state_def set_current_def exit_event_on_def)

text \<open>
  C8. Thread 42 is current on CPU 0; it enters \<open>open("/tmp/a")\<close> at 100, the open exits
  (at any time \<open>t\<close>) returning 5, it enters a read on fd 5 at 110 and the read exits at 115
  returning 1000. Afterwards the descriptor stored under fd 5 has read 1000 bytes, exactly
  one request of its list is a read, with size 1000 and duration 5, and the read counter
  of process 42 is 1000.
\<close>

theorem open_read_scenario:
  "(case sys_run SyscallConsts scenario_state
           [SyscallEntry open_entry, SyscallExit (open_exit t 5), SyscallEntry read_entry,
            SyscallExit read_exit] of
      Inl e \<Rightarrow> False
    | Inr s \<Rightarrow>
        (case tids s 42 of
           None \<Rightarrow> False
         | Some p \<Rightarrow>
             (case map_of (p_fds p) 5 of
                None \<Rightarrow> False
              | Some a \<Rightarrow>
                  f_read (heap s a) = 1000 \<and>
                  (case filter (\<lambda>rq. rq_operation rq = Some OP_READ) (f_iorequests (heap s a)) of
                     [rq] \<Rightarrow> rq_size rq = Some 1000 \<and> rq_duration rq = Some 5
                   | _ \<Rightarrow> False) \<and>
                  p_read p = 1000)))"
  by (simp add: sys_defs example_defs)

section \<open>Properties of the side-channel handlers\<close>

lemma annotate_nonempty: "p_current_syscall (annotate_pages n p) \<noteq> cs_empty"
  by (simp add: annotate_pages_def cs_empty_def)
     (metis current_syscall.select_convs(12) current_syscall.surjective
       current_syscall.update_convs(12) option.distinct(1))

lemma annotate_idem: "annotate_pages n (annotate_pages n p) = annotate_pages n p"
  by (simp add: annotate_pages_def)

lemma writeback_loop_result:
  assumes "ev_ints ev ''pages'' = Some n"
    and "\<forall>k. Some k \<in> snd ` set l \<longrightarrow> tids s k \<noteq> None"
  shows "\<exists>s'. writeback_loop s ev l = Inr s' \<and>
     (\<forall>k. tids s' k =
        map_option (\<lambda>p. if Some k \<in> snd ` set l \<and> p_current_syscall p \<noteq> cs_empty
                         then annotate_pages n p else p) (tids s k)) \<and>
     heap s' = heap s \<and> cpus s' = cpus s \<and> pending_syscalls s' = pending_syscalls s"
  using assms(2)
proof (induction l arbitrary: s)
  case Nil
  then show ?case by (simp add: option.map_ident)
next
  case (Cons x rest)
  obtain c cur where x: "x = (c, cur)" by (cases x)
  show ?case
  proof (cases cur)
    case None
    from Cons.prems have "\<forall>k. Some k \<in> snd ` set rest \<longrightarrow> tids s k \<noteq> None" by auto
    from Cons.IH [OF this] x None show ?thesis by (auto simp: image_iff)
  next
    case (Some k0)
    from Cons.prems x Some obtain t where t: "tids s k0 = Some t" by force
    have pr: "\<forall>k. Some k \<in> snd ` set rest \<longrightarrow> tids s k \<noteq> None" using Cons.prems by auto
    show ?thesis
    proof (cases "p_current_syscall t = cs_empty")
      case True
      from Cons.IH [OF pr] obtain s' where
        r: "writeback_loop s ev rest = Inr s'"
          "\<forall>k. tids s' k = map_option (\<lambda>p. if Some k \<in> snd ` set rest \<and> p_current_syscall p \<noteq> cs_empty
                         then annotate_pages n p else p) (tids s k)"
          "heap s' = heap s" "cpus s' = cpus s" "pending_syscalls s' = pending_syscalls s"
        by blast
      have "writeback_loop s ev (x # rest) = Inr s'"
        using r(1) x Some t True by (simp add: lookup_Some)
      moreover have "tids s' k = map_option (\<lambda>p. if Some k \<in> snd ` set (x # rest) \<and> p_current_syscall p \<noteq> cs_empty
                         then annotate_pages n p else p) (tids s k)" for k
        using r(2) x Some t True by (cases "k = k0") (auto simp: image_iff)
      ultimately show ?thesis using r(3-5) by blast
    next
      case False
      let ?s1 = "upd_cs s k0 (\<lambda>cs. cs\<lparr>cs_pages_written := Some n\<rparr>)"
      have t1: "tids ?s1 = (tids s)(k0 \<mapsto> annotate_pages n t)"
        using t by (simp add: upd_cs_def upd_proc_def annotate_pages_def)
      have o1: "heap ?s1 = heap s" "cpus ?s1 = cpus s" "pending_syscalls ?s1 = pending_syscalls s"
        using t by (simp_all add: upd_cs_def upd_proc_def)
      have "\<forall>k. Some k \<in> snd ` set rest \<longrightarrow> tids ?s1 k \<noteq> None" using pr t1 by simp
      from Cons.IH [OF this] obtain s' where
        r: "writeback_loop ?s1 ev rest = Inr s'"
          "\<forall>k. tids s' k = map_option (\<lambda>p. if Some k \<in> snd ` set rest \<and> p_current_syscall p \<noteq> cs_empty
                         then annotate_pages n p else p) (tids ?s1 k)"
          "heap s' = heap ?s1" "cpus s' = cpus ?s1" "pending_syscalls s' = pending_syscalls ?s1"
        by blast
      have "writeback_loop s ev (x # rest) = Inr s'"
        using r(1) x Some t False assms(1) by (simp add: lookup_Some ev_int_def)
      moreover have "tids s' k = map_option (\<lambda>p. if Some k \<in> snd ` set (x # rest) \<and> p_current_syscall p \<noteq> cs_empty
                         then annotate_pages n p else p) (tids s k)" for k
      proof (cases "k = k0")
        case True
        then show ?thesis
          using r(2) t1 t False x Some by (simp add: annotate_idem annotate_nonempty)
      next
        case ne: False
        then show ?thesis using r(2) t1 x Some by (auto simp: image_iff)
      qed
      ultimately show ?thesis using r(3-5) o1 by auto
    qed
  qed
qed

text \<open>
  C5 (amended). A page-write-back event, when every current thread of the CPU table is
  known, stores its page count in the \<open>pages_written\<close> field of the in-flight record of
  every thread that is current on some CPU and has a non-empty record, in place of the
  value held there; every other thread, every empty record and every descriptor is
  unchanged.
\<close>

theorem writeback_pages_written_stored:
  assumes "ev_ints ev ''pages'' = Some n"
    and "\<forall>k. Some k \<in> snd ` set (cpus s) \<longrightarrow> tids s k \<noteq> None"
  shows "\<exists>s'. process_writeback_pages_written s ev = Inr s' \<and>
     (\<forall>k. tids s' k =
        map_option (\<lambda>p. if Some k \<in> snd ` set (cpus s) \<and> p_current_syscall p \<noteq> cs_empty
                         then annotate_pages n p else p) (tids s k)) \<and>
     heap s' = heap s \<and> cpus s' = cpus s \<and> pending_syscalls s' = pending_syscalls s"
  unfolding process_writeback_pages_written_def
  using writeback_loop_result [OF assms] .

text \<open>
  The hypotheses of C5 hold for thread 42, current on CPU 0 and in a read, and a
  write-back event of 3 pages: the record then holds 3.
\<close>

theorem writeback_pages_written_stored_witness:
  "\<exists>s' p. process_writeback_pages_written woken_state (pages_event 3) = Inr s' \<and>
     tids s' 42 = Some p \<and> cs_pages_written (p_current_syscall p) = Some 3"
proof -
  have h1: "ev_ints (pages_event 3) ''pages'' = Some 3"
    by (simp add: pages_event_def mk_event_def)
  have c: "cpus woken_state = [(0, Some 42)]"
    by (simp add: woken_state_def scenario_state_def state_init_def)
  have t: "tids woken_state 42 = Some ((Process_new 0)\<lparr>p_tid := Some 42, p_pid := Some 42,
        p_current_syscall := cs_empty\<lparr>cs_name := Some ''syscall_entry_read'',
          cs_start := Some 100, cs_wakeup_kswapd := Some 1\<rparr>\<rparr>)"
    by (simp add: woken_state_def scenario_state_def state_init_def)
  have h2: "\<forall>k. Some k \<in> snd ` set (cpus woken_state) \<longrightarrow> tids woken_state k \<noteq> None"
    by (simp add: c t)
  from writeback_pages_written_stored [OF h1 h2] obtain s' where
    r: "process_writeback_pages_written woken_state (pages_event 3) = Inr s'"
      "\<forall>k. tids s' k =
        map_option (\<lambda>p. if Some k \<in> snd ` set (cpus woken_state) \<and> p_current_syscall p \<noteq> cs_empty
                         then annotate_pages 3 p else p) (tids woken_state k)"
    by blast
  from r(2) have "tids s' 42 = Some (annotate_pages 3 ((Process_new 0)\<lparr>p_tid := Some 42, p_pid := Some 42,
        p_current_syscall := cs_empty\<lparr>cs_name := Some ''syscall_entry_read'',
          cs_start := Some 100, cs_wakeup_kswapd := Some 1\<rparr>\<rparr>))"
    by (simp add: c t cs_empty_def)
  with r(1) show ?thesis by (simp add: annotate_pages_def)
qed

text \<open>
  C5 as stated fails: after write-back events of 3 and of 4 pages the record of thread 42
  holds 4, not the sum; a reclaim-wakeup event on the CPU of a thread with a non-empty
  record leaves the state as it is, without the wakeup mark; a page-free event leaves
  the state as it is, without any page-free credit, also when the record carries the
  wakeup mark.
\<close>

theorem side_channel_counterexample:
  "(case process_writeback_pages_written woken_state (pages_event 3) of
      Inl e \<Rightarrow> False
    | Inr s1 \<Rightarrow>
        (case process_writeback_pages_written s1 (pages_event 4) of
           Inl e \<Rightarrow> False
         | Inr s2 \<Rightarrow> cs_pages_written (p_current_syscall (the (tids s2 42))) = Some 4)) \<and>
   p_current_syscall (the (tids (inflight_state ''syscall_entry_read'') 42)) \<noteq> cs_empty \<and>
   process_mm_vmscan_wakeup_kswapd (inflight_state ''syscall_entry_read'')
       (cpu0_event ''mm_vmscan_wakeup_kswapd'') = Inr (inflight_state ''syscall_entry_read'') \<and>
   cs_wakeup_kswapd (p_current_syscall (the (tids (inflight_state ''syscall_entry_read'') 42))) = None \<and>
   cs_wakeup_kswapd (p_current_syscall (the (tids woken_state 42))) = Some 1 \<and>
   process_mm_page_free woken_state (cpu0_event ''mm_page_free'') = Inr woken_state \<and>
   cs_page_free (p_current_syscall (the (tids woken_state 42))) = None"
  by (simp add: process_writeback_pages_written_def process_mm_vmscan_wakeup_kswapd_def
      process_mm_page_free_def lookup_def ev_int_def upd_cs_def upd_proc_def
      woken_state_def inflight_state_def scenario_state_def state_init_def pages_event_def
      cpu0_event_def mk_event_def Process_new_def cs_empty_def)

end
